theory Spec2Isabelle
  imports Complex_Main "HOL-Library.Monad_Syntax"
begin

section \<open>VectorStudio: document model, history, tools\<close>

text \<open>
  A shallow embedding of the editing core of VectorStudio: the types of
  \<^verbatim>\<open>src/types/index.ts\<close>, the history hook \<^verbatim>\<open>useCanvas\<close>
  (\<^verbatim>\<open>src/hooks/useCanvas.ts\<close>), the bounding boxes of
  \<^verbatim>\<open>src/utils/geometry.ts\<close> and the pointer handlers of
  \<^verbatim>\<open>src/components/Canvas.tsx\<close>.

  JavaScript numbers are modelled as \<^typ>\<open>real\<close>: no rounding, no NaN, no infinity.
  Field names follow the source, except where the name is taken in HOL or would capture
  the variables \<open>x\<close> and \<open>y\<close>: \<open>Point.x\<close> is \<open>px\<close>, \<open>Transform.x\<close> is \<open>tx\<close>,
  \<open>BoundingBox.x\<close> is \<open>box_x\<close>, an object's \<open>id\<close> is \<open>oid\<close>, a layer's \<open>id\<close> is
  \<open>lid\<close>, and a layer's \<open>name\<close>, \<open>visible\<close>, \<open>locked\<close> carry the prefix \<open>l\<close>.
\<close>

subsection \<open>Types (\<^verbatim>\<open>src/types/index.ts\<close>)\<close>

record Point =
  px :: real
  py :: real

record BoundingBox =
  box_x :: real
  box_y :: real
  box_width :: real
  box_height :: real

record Transform =
  tx :: real
  ty :: real
  rotation :: real
  scaleX :: real
  scaleY :: real

record GradientStop =
  stop_offset :: real
  stop_color :: string
  stop_opacity :: real

datatype GradientType = Linear | Radial

record Gradient =
  gtype :: GradientType
  stops :: "GradientStop list"
  angle :: "real option"

text \<open>
  \<^verbatim>\<open>gradient?: Gradient | null\<close>: the key may be missing, hold \<^verbatim>\<open>null\<close>, or hold a
  gradient. The three cases are kept apart because an object spread copies a key that
  is present (also when it holds \<^verbatim>\<open>null\<close>) and skips a key that is missing.
\<close>

datatype GradientField = GradientAbsent | GradientNull | GradientValue Gradient

record StyleProperties =
  fill :: string
  stroke :: string
  strokeWidth :: real
  opacity :: real
  fillOpacity :: real
  strokeOpacity :: real
  gradient :: GradientField

text \<open>
  The seven variants of \<^verbatim>\<open>CanvasObject\<close>; the constructor is the \<^verbatim>\<open>type\<close> tag and
  its arguments are the variant's own fields in the order of the interface:
  \<^verbatim>\<open>Rect width height rx ry\<close>, \<^verbatim>\<open>Circle radius\<close>, \<^verbatim>\<open>Path points closed\<close>,
  \<^verbatim>\<open>Curve points controlPoints closed\<close>,
  \<^verbatim>\<open>Text content fontSize fontFamily fontWeight\<close>, \<^verbatim>\<open>Line x1 y1 x2 y2\<close>,
  \<^verbatim>\<open>Image src width height originalWidth originalHeight\<close>.
\<close>

datatype Shape =
    Rect real real "real option" "real option"
  | Circle real
  | Path "Point list" bool
  | Curve "Point list" "Point list" bool
  | Text string real string string
  | Line real real real real
  | Image string real real real real

text \<open>
  \<^verbatim>\<open>Omit<CanvasObject, 'id'>\<close> is the record \<open>ObjectBody\<close>; \<^verbatim>\<open>CanvasObject\<close> extends
  it by the id.
\<close>

record ObjectBody =
  transform :: Transform
  style :: StyleProperties
  visible :: bool
  locked :: bool
  selected :: bool
  shape :: Shape

record CanvasObject = ObjectBody +
  oid :: string

record Layer =
  lid :: string
  lname :: string
  lvisible :: bool
  llocked :: bool
  objects :: "CanvasObject list"

record Size =
  width :: real
  height :: real

datatype Tool =
    ToolSelect | ToolPen | ToolCurve | ToolRect | ToolCircle | ToolEllipse | ToolLine
  | ToolText | ToolBrush | ToolEyedropper | ToolZoom | ToolHand | ToolPolygon | ToolStar
  | ToolTriangle | ToolEraser

record CanvasState =
  layers :: "Layer list"
  activeLayerId :: string
  selectedObjectIds :: "string list"
  zoom :: real
  pan :: Point
  tool :: Tool
  canvasSize :: Size

record HistoryState =
  past :: "CanvasState list"
  present :: CanvasState
  future :: "CanvasState list"

subsection \<open>The history hook (\<^verbatim>\<open>src/hooks/useCanvas.ts\<close>)\<close>

definition createInitialState :: CanvasState where
  "createInitialState =
     \<lparr>layers = [\<lparr>lid = ''layer-1'', lname = ''Layer 1'', lvisible = True,
                  llocked = False, objects = []\<rparr>],
      activeLayerId = ''layer-1'',
      selectedObjectIds = [],
      zoom = 1,
      pan = \<lparr>px = 100, py = 100\<rparr>,
      tool = ToolSelect,
      canvasSize = \<lparr>width = 4000, height = 4000\<rparr>\<rparr>"

text \<open>The argument of \<^verbatim>\<open>useState<HistoryState>\<close>: the history a session starts with.\<close>

definition initialHistory :: HistoryState where
  "initialHistory = \<lparr>past = [], present = createInitialState, future = []\<rparr>"

text \<open>
  Every operation of the hook ends in \<^verbatim>\<open>setHistory(prev => ...)\<close>: it is a function
  from the history \<open>prev\<close> that React holds when the update is applied to the next
  history. The callbacks made with \<^verbatim>\<open>useCallback(..., [state])\<close> also read \<open>state\<close>, the
  \<open>present\<close> of the render that built the callback; the model passes it as an argument
  of its own, before \<open>prev\<close>. For an event handled alone \<open>state\<close> is \<open>present prev\<close>.
  An early \<^verbatim>\<open>return\<close> queues no update, so the history stays \<open>prev\<close>.

  \<^verbatim>\<open>xs.slice(-50)\<close> is the last 50 elements (all of them when there are fewer),
  \<^verbatim>\<open>xs.slice(0, n)\<close> is \<open>take n xs\<close> and \<^verbatim>\<open>xs.slice(1)\<close> is \<open>drop 1 xs\<close>.
\<close>

definition pushToHistory :: "CanvasState \<Rightarrow> HistoryState \<Rightarrow> HistoryState" where
  "pushToHistory newState prev =
     \<lparr>past = drop (length (past prev) - 50) (past prev) @ [present prev],
      present = newState,
      future = []\<rparr>"

definition undo :: "HistoryState \<Rightarrow> HistoryState" where
  "undo prev =
     (if length (past prev) = 0 then prev
      else
        let previous = past prev ! (length (past prev) - 1);
            newPast = take (length (past prev) - 1) (past prev)
        in \<lparr>past = newPast,
            present = previous,
            future = present prev # take 49 (future prev)\<rparr>)"

definition redo :: "HistoryState \<Rightarrow> HistoryState" where
  "redo prev =
     (if length (future prev) = 0 then prev
      else
        let next = future prev ! 0;
            newFuture = drop 1 (future prev)
        in \<lparr>past = past prev @ [present prev],
            present = next,
            future = newFuture\<rparr>)"

definition setTool :: "CanvasState \<Rightarrow> Tool \<Rightarrow> HistoryState \<Rightarrow> HistoryState" where
  "setTool state t prev =
     (let newState = state\<lparr>tool := t, selectedObjectIds := []\<rparr>
      in prev\<lparr>present := newState\<rparr>)"

definition selectObjects :: "CanvasState \<Rightarrow> string list \<Rightarrow> HistoryState \<Rightarrow> HistoryState" where
  "selectObjects state objectIds prev =
     (let newState = state\<lparr>selectedObjectIds := objectIds\<rparr>
      in prev\<lparr>present := newState\<rparr>)"

definition setZoom :: "CanvasState \<Rightarrow> real \<Rightarrow> HistoryState \<Rightarrow> HistoryState" where
  "setZoom state z prev =
     (let newState = state\<lparr>zoom := max (1/10) (min 5 z)\<rparr>
      in prev\<lparr>present := newState\<rparr>)"

definition setPan :: "CanvasState \<Rightarrow> Point \<Rightarrow> HistoryState \<Rightarrow> HistoryState" where
  "setPan state p prev =
     (let newState = state\<lparr>pan := p\<rparr>
      in prev\<lparr>present := newState\<rparr>)"

definition canUndo :: "HistoryState \<Rightarrow> bool" where
  "canUndo history = (length (past history) > 0)"

definition canRedo :: "HistoryState \<Rightarrow> bool" where
  "canRedo history = (length (future history) > 0)"

text \<open>
  \<^verbatim>\<open>addObject\<close>. The id is \<^verbatim>\<open>`obj-${nextObjectId.current++}`\<close>; the counter is a ref
  outside the history, so the id string is an argument here. \<^verbatim>\<open>state.layers.find\<close>
  returns a layer exactly when some layer has the active id.
\<close>

definition addObject :: "CanvasState \<Rightarrow> string \<Rightarrow> ObjectBody \<Rightarrow> HistoryState \<Rightarrow> HistoryState" where
  "addObject state newId obj prev =
     (let newObject = \<lparr>transform = transform obj, style = style obj, visible = visible obj,
                        locked = locked obj, selected = selected obj, shape = shape obj,
                        oid = newId\<rparr>
      in if \<not> list_ex (\<lambda>layer. lid layer = activeLayerId state) (layers state) then prev
         else
           let newLayers =
                 map (\<lambda>layer. if lid layer = activeLayerId state
                                then layer\<lparr>objects := objects layer @ [newObject]\<rparr>
                                else layer)
                     (layers state);
               newState = state\<lparr>layers := newLayers, selectedObjectIds := [oid newObject]\<rparr>
           in pushToHistory newState prev)"



text \<open>
  One key of \<^verbatim>\<open>{ ...obj, ...updates }\<close>: the update's value when the key is there,
  the object's value otherwise.
\<close>

definition spreadKey :: "'a \<Rightarrow> 'a option \<Rightarrow> 'a" where
  "spreadKey old upd = (case upd of None \<Rightarrow> old | Some v \<Rightarrow> v)"




text \<open>
  \<^verbatim>\<open>deleteLayer\<close>. When the deleted id is the active one, \<^verbatim>\<open>newLayers[0].id\<close> is read:
  on an empty \<^verbatim>\<open>newLayers\<close> (every layer carried the deleted id) this raises a
  TypeError before \<^verbatim>\<open>pushToHistory\<close> is reached, and the history stays \<open>prev\<close>.
\<close>

definition deleteLayer :: "CanvasState \<Rightarrow> string \<Rightarrow> HistoryState \<Rightarrow> HistoryState" where
  "deleteLayer state layerId prev =
     (if length (layers state) \<le> 1 then prev
      else
        let newLayers = filter (\<lambda>layer. lid layer \<noteq> layerId) (layers state)
        in if layerId = activeLayerId state then
             (case newLayers of
                [] \<Rightarrow> prev
              | l # _ \<Rightarrow> pushToHistory (state\<lparr>layers := newLayers, activeLayerId := lid l\<rparr>) prev)
           else pushToHistory (state\<lparr>layers := newLayers, activeLayerId := activeLayerId state\<rparr>) prev)"

text \<open>\<^verbatim>\<open>Array.prototype.findIndex\<close>: the first index whose element passes, or \<open>-1\<close>.\<close>

fun findIndex :: "('a \<Rightarrow> bool) \<Rightarrow> 'a list \<Rightarrow> int" where
  "findIndex P [] = -1"
| "findIndex P (a # as) =
     (if P a then 0 else (let i = findIndex P as in if i = -1 then -1 else i + 1))"

datatype Direction = Up | Down

text \<open>
  \<^verbatim>\<open>moveLayer\<close>. \<^verbatim>\<open>newLayers.splice(currentIndex, 1)\<close> takes the layer out,
  \<^verbatim>\<open>newLayers.splice(newIndex, 0, movedLayer)\<close> puts it behind before position
  \<open>newIndex\<close> of what is left.
\<close>

definition moveLayer :: "CanvasState \<Rightarrow> string \<Rightarrow> Direction \<Rightarrow> HistoryState \<Rightarrow> HistoryState" where
  "moveLayer state layerId direction prev =
     (let currentIndex = findIndex (\<lambda>layer. lid layer = layerId) (layers state)
      in if currentIndex = -1 then prev
         else
           let newIndex = (if direction = Up then currentIndex - 1 else currentIndex + 1)
           in if newIndex < 0 \<or> newIndex \<ge> int (length (layers state)) then prev
              else
                let movedLayer = layers state ! nat currentIndex;
                    removed = take (nat currentIndex) (layers state)
                              @ drop (nat currentIndex + 1) (layers state);
                    newLayers = take (nat newIndex) removed @ [movedLayer]
                                @ drop (nat newIndex) removed;
                    newState = state\<lparr>layers := newLayers\<rparr>
                in pushToHistory newState prev)"

text \<open>
  \<^verbatim>\<open>loadProject(data: any)\<close>. The argument is what \<^verbatim>\<open>JSON.parse\<close> returned. \<open>None\<close>
  is \<^verbatim>\<open>null\<close> (or \<^verbatim>\<open>undefined\<close>): reading \<^verbatim>\<open>data.layers\<close> raises a TypeError, the
  \<^verbatim>\<open>catch\<close> logs it, and \<^verbatim>\<open>setHistory\<close> is not called. Any other value is read
  through three keys; a key that is missing or holds a falsy value is \<open>None\<close> (a number,
  a string or a boolean as \<^verbatim>\<open>data\<close> has none of the keys). An array is truthy also when
  empty; a string is truthy unless empty.
\<close>

record ProjectData =
  d_layers :: "Layer list option"
  d_activeLayerId :: "string option"
  d_canvasSize :: "Size option"

text \<open>\<^verbatim>\<open>data.layers?.[0]?.id\<close>.\<close>

definition firstLayerId :: "Layer list option \<Rightarrow> string option" where
  "firstLayerId ls = (case ls of None \<Rightarrow> None | Some [] \<Rightarrow> None | Some (l # _) \<Rightarrow> Some (lid l))"

text \<open>\<^verbatim>\<open>a || b\<close> on strings that may be undefined: \<open>a\<close> unless it is undefined or empty.\<close>

definition orElse :: "string option \<Rightarrow> string \<Rightarrow> string" where
  "orElse a b = (case a of None \<Rightarrow> b | Some v \<Rightarrow> if v = [] then b else v)"

definition loadProject :: "ProjectData option \<Rightarrow> HistoryState \<Rightarrow> HistoryState" where
  "loadProject data prev =
     (case data of
        None \<Rightarrow> prev
      | Some d \<Rightarrow>
          let newState =
                \<lparr>layers = (case d_layers d of Some ls \<Rightarrow> ls | None \<Rightarrow> layers createInitialState),
                 activeLayerId =
                   orElse (d_activeLayerId d) (orElse (firstLayerId (d_layers d)) ''layer-1''),
                 selectedObjectIds = [],
                 zoom = 1,
                 pan = \<lparr>px = 100, py = 100\<rparr>,
                 tool = ToolSelect,
                 canvasSize = (case d_canvasSize d of Some c \<Rightarrow> c
                               | None \<Rightarrow> \<lparr>width = 4000, height = 4000\<rparr>)\<rparr>
          in \<lparr>past = [], present = newState, future = []\<rparr>)"

text \<open>\<^verbatim>\<open>state.layers.flatMap(layer => layer.objects)\<close> (App).\<close>

definition allObjects :: "CanvasState \<Rightarrow> CanvasObject list" where
  "allObjects state = concat (map objects (layers state))"

text \<open>
  \<^verbatim>\<open>Partial<Layer>\<close> and \<^verbatim>\<open>updateLayer\<close>, which replaces the present only.
\<close>

record LayerUpdates =
  ul_id :: "string option"
  ul_name :: "string option"
  ul_visible :: "bool option"
  ul_locked :: "bool option"
  ul_objects :: "CanvasObject list option"

definition noLayerUpdates :: LayerUpdates where
  "noLayerUpdates =
     \<lparr>ul_id = None, ul_name = None, ul_visible = None, ul_locked = None, ul_objects = None\<rparr>"

definition spreadLayer :: "Layer \<Rightarrow> LayerUpdates \<Rightarrow> Layer" where
  "spreadLayer layer u =
     \<lparr>lid = spreadKey (lid layer) (ul_id u),
      lname = spreadKey (lname layer) (ul_name u),
      lvisible = spreadKey (lvisible layer) (ul_visible u),
      llocked = spreadKey (llocked layer) (ul_locked u),
      objects = spreadKey (objects layer) (ul_objects u)\<rparr>"

definition updateLayer :: "CanvasState \<Rightarrow> string \<Rightarrow> LayerUpdates \<Rightarrow> HistoryState \<Rightarrow> HistoryState" where
  "updateLayer state layerId updates prev =
     (let newLayers = map (\<lambda>layer. if lid layer = layerId then spreadLayer layer updates else layer)
                          (layers state);
          newState = state\<lparr>layers := newLayers\<rparr>
      in prev\<lparr>present := newState\<rparr>)"

text \<open>
  The decimal digits of a natural number, as a template literal prints it.
\<close>

function decimal :: "nat \<Rightarrow> string" where
  "decimal n =
     (if n < 10 then [''0123456789'' ! n]
      else decimal (n div 10) @ [''0123456789'' ! (n mod 10)])"
  by pat_completeness auto
termination
  by (relation "measure id") auto

declare decimal.simps [simp del]

text \<open>
  \<^verbatim>\<open>addLayer\<close>; \<open>now\<close> is the value of \<^verbatim>\<open>Date.now()\<close>.
\<close>

definition addLayer :: "CanvasState \<Rightarrow> nat \<Rightarrow> HistoryState \<Rightarrow> HistoryState" where
  "addLayer state now prev =
     (let newLayer = \<lparr>lid = ''layer-'' @ decimal now,
                      lname = ''Layer '' @ decimal (length (layers state) + 1),
                      lvisible = True, llocked = False, objects = []\<rparr>;
          newState = state\<lparr>layers := layers state @ [newLayer], activeLayerId := lid newLayer\<rparr>
      in pushToHistory newState prev)"

text \<open>
  The histories a session can reach. Every operation of the hook leaves the history as it
  is (an early return), replaces \<open>present\<close> only, commits through \<open>pushToHistory\<close>,
  or is \<open>undo\<close>, \<open>redo\<close> or \<open>loadProject\<close>.
\<close>

inductive_set reachable :: "HistoryState set" where
  start: "initialHistory \<in> reachable"
| commit: "h \<in> reachable \<Longrightarrow> pushToHistory s h \<in> reachable"
| transient: "h \<in> reachable \<Longrightarrow> h\<lparr>present := s\<rparr> \<in> reachable"
| undone: "h \<in> reachable \<Longrightarrow> undo h \<in> reachable"
| redone: "h \<in> reachable \<Longrightarrow> redo h \<in> reachable"
| loaded: "h \<in> reachable \<Longrightarrow> loadProject d h \<in> reachable"

subsection \<open>Bounding boxes (\<^verbatim>\<open>src/utils/geometry.ts\<close>)\<close>

text \<open>
  \<^verbatim>\<open>Math.min(...xs)\<close> and \<^verbatim>\<open>Math.max(...xs)\<close> on a list that is not empty (the empty
  case is taken before they are called).
\<close>

fun minOf :: "real list \<Rightarrow> real" where
  "minOf [] = 0"
| "minOf (a # as) = fold min as a"

fun maxOf :: "real list \<Rightarrow> real" where
  "maxOf [] = 0"
| "maxOf (a # as) = fold max as a"

definition pointsBox :: "Transform \<Rightarrow> Point list \<Rightarrow> BoundingBox" where
  "pointsBox t ps =
     (if length ps = 0 then \<lparr>box_x = tx t, box_y = ty t, box_width = 0, box_height = 0\<rparr>
      else
        let xs = map px ps; ys = map py ps;
            minPX = minOf xs; maxPX = maxOf xs; minPY = minOf ys; maxPY = maxOf ys
        in \<lparr>box_x = minPX + tx t, box_y = minPY + ty t,
            box_width = maxPX - minPX, box_height = maxPY - minPY\<rparr>)"

text \<open>
  \<^verbatim>\<open>getBoundingBox\<close>, one equation per \<^verbatim>\<open>case\<close>; the \<^verbatim>\<open>default\<close> branch has no
  variant left. \<^verbatim>\<open>obj.fontSize || 16\<close> is 16 when the font size is 0, and
  \<^verbatim>\<open>obj.content?.length || 0\<close> is the length of the string.
\<close>

fun shapeBox :: "Transform \<Rightarrow> Shape \<Rightarrow> BoundingBox" where
  "shapeBox t (Rect w h rx ry) =
     \<lparr>box_x = tx t, box_y = ty t, box_width = w * scaleX t, box_height = h * scaleY t\<rparr>"
| "shapeBox t (Circle radius) =
     (let r = radius * max (scaleX t) (scaleY t)
      in \<lparr>box_x = tx t - r, box_y = ty t - r, box_width = r * 2, box_height = r * 2\<rparr>)"
| "shapeBox t (Line a1 b1 a2 b2) =
     (let minX = min a1 a2; maxX = max a1 a2; minY = min b1 b2; maxY = max b1 b2
      in \<lparr>box_x = minX + tx t, box_y = minY + ty t,
          box_width = maxX - minX, box_height = maxY - minY\<rparr>)"
| "shapeBox t (Path ps c) = pointsBox t ps"
| "shapeBox t (Curve ps cps c) = pointsBox t ps"
| "shapeBox t (Text content fontSize ff fw) =
     (let textWidth = real (length content) * (if fontSize = 0 then 16 else fontSize) * (6/10);
          textHeight = (if fontSize = 0 then 16 else fontSize)
      in \<lparr>box_x = tx t, box_y = ty t - textHeight / 2,
          box_width = textWidth, box_height = textHeight\<rparr>)"
| "shapeBox t (Image s w h ow oh) =
     \<lparr>box_x = tx t, box_y = ty t, box_width = w * scaleX t, box_height = h * scaleY t\<rparr>"

definition getBoundingBox :: "CanvasObject \<Rightarrow> BoundingBox" where
  "getBoundingBox obj = shapeBox (transform obj) (shape obj)"

subsection \<open>The canvas component (\<^verbatim>\<open>src/components/Canvas.tsx\<close>)\<close>

text \<open>
  The \<^verbatim>\<open>useState\<close> cells of \<^verbatim>\<open>Canvas\<close> that \<^verbatim>\<open>updateCanvasSize\<close> and
  \<^verbatim>\<open>handleMouseUp\<close> read or write. A cell that may hold \<^verbatim>\<open>null\<close> is an option. The
  component's own \<^verbatim>\<open>canvasSize\<close> is \<open>localCanvasSize\<close> (the document has a field of
  the same name).
\<close>

record BrushSettings =
  brush_size :: real
  brush_opacity :: real
  brush_color :: string

record SelectionBox =
  box_start :: Point
  box_end :: Point

record CanvasLocal =
  isDragging :: bool
  dragStart :: "Point option"
  isDrawing :: bool
  drawingStart :: "Point option"
  previewObject :: "CanvasObject option"
  localCanvasSize :: Size
  selectionBox :: "SelectionBox option"
  editingTextId :: "string option"
  penPath :: "Point list"
  brushStrokes :: "Point list"
  isBrushing :: bool
  brushSettings :: BrushSettings
  curvePoints :: "Point list"

text \<open>The four running bounds of \<^verbatim>\<open>updateCanvasSize\<close> and the bodies of its two \<^verbatim>\<open>forEach\<close> calls.\<close>

record Extent =
  minX :: real
  minY :: real
  maxX :: real
  maxY :: real

definition extendByObject :: "CanvasObject \<Rightarrow> Extent \<Rightarrow> Extent" where
  "extendByObject obj e =
     (if \<not> visible obj then e
      else
        let bbox = getBoundingBox obj
        in \<lparr>minX = min (minX e) (box_x bbox - 100),
            minY = min (minY e) (box_y bbox - 100),
            maxX = max (maxX e) (box_x bbox + box_width bbox + 100),
            maxY = max (maxY e) (box_y bbox + box_height bbox + 100)\<rparr>)"

definition extendByPoint :: "Point \<Rightarrow> Extent \<Rightarrow> Extent" where
  "extendByPoint point e =
     \<lparr>minX = min (minX e) (px point - 100),
      minY = min (minY e) (py point - 100),
      maxX = max (maxX e) (px point + 100),
      maxY = max (maxY e) (py point + 100)\<rparr>"

text \<open>
  \<^verbatim>\<open>updateCanvasSize(newPoint?, additionalObjects = [])\<close>, with the \<^verbatim>\<open>objects\<close> prop as
  first argument. The result is the component's canvas size after the call: the new
  size when \<^verbatim>\<open>setCanvasSize\<close> is called, the old one otherwise.
\<close>

definition updateCanvasSize ::
  "CanvasObject list \<Rightarrow> CanvasLocal \<Rightarrow> Point option \<Rightarrow> CanvasObject list \<Rightarrow> Size" where
  "updateCanvasSize objs local newPoint additionalObjects =
     (let allObjs = objs @ additionalObjects
                    @ (case previewObject local of None \<Rightarrow> [] | Some p \<Rightarrow> [p]);
          pointsToCheck = (case newPoint of None \<Rightarrow> [] | Some p \<Rightarrow> [p])
                          @ penPath local @ brushStrokes local @ curvePoints local;
          e0 = \<lparr>minX = 0, minY = 0, maxX = 4000, maxY = 4000\<rparr>;
          e1 = fold extendByObject allObjs e0;
          e2 = fold extendByPoint pointsToCheck e1;
          padding = 500;
          requiredMinX = minX e2 - padding;
          requiredMinY = minY e2 - padding;
          requiredMaxX = maxX e2 + padding;
          requiredMaxY = maxY e2 + padding;
          newWidth = max 4000 (requiredMaxX - requiredMinX);
          newHeight = max 4000 (requiredMaxY - requiredMinY);
          needsResize = (newWidth > width (localCanvasSize local)
                         \<or> newHeight > height (localCanvasSize local))
      in if needsResize then \<lparr>width = newWidth, height = newHeight\<rparr>
         else localCanvasSize local)"

text \<open>The initial values of the cells.\<close>

definition initialLocal :: CanvasLocal where
  "initialLocal =
     \<lparr>isDragging = False, dragStart = None, isDrawing = False, drawingStart = None,
      previewObject = None, localCanvasSize = \<lparr>width = 4000, height = 4000\<rparr>,
      selectionBox = None, editingTextId = None, penPath = [], brushStrokes = [],
      isBrushing = False,
      brushSettings = \<lparr>brush_size = 10, brush_opacity = 1, brush_color = ''#1E40AF''\<rparr>,
      curvePoints = []\<rparr>"

text \<open>
  What a handler asks of its props, in the order of the calls: \<^verbatim>\<open>onAddObject(obj)\<close>
  and \<^verbatim>\<open>onObjectSelect(ids)\<close>. A handler returns its calls and the cells after it.
\<close>

datatype CanvasCall = OnAddObject ObjectBody | OnObjectSelect "string list"

text \<open>
  An object literal of the handlers: they all carry \<^verbatim>\<open>visible: true\<close>,
  \<^verbatim>\<open>locked: false\<close>, \<^verbatim>\<open>selected: false\<close>.
\<close>

definition objectLiteral :: "Transform \<Rightarrow> StyleProperties \<Rightarrow> Shape \<Rightarrow> ObjectBody" where
  "objectLiteral t st sh =
     \<lparr>transform = t, style = st, visible = True, locked = False, selected = False, shape = sh\<rparr>"

text \<open>\<^verbatim>\<open>baseStyle\<close> of \<^verbatim>\<open>handleMouseUp\<close>.\<close>

definition baseStyle :: StyleProperties where
  "baseStyle =
     \<lparr>fill = ''#3B82F6'', stroke = ''#1E40AF'', strokeWidth = 2, opacity = 1,
      fillOpacity = 1, strokeOpacity = 1, gradient = GradientNull\<rparr>"

definition finishBrushStroke :: "CanvasLocal \<Rightarrow> CanvasCall list \<times> CanvasLocal" where
  "finishBrushStroke local =
     ((if length (brushStrokes local) > 1 then
         [OnAddObject
            (objectLiteral \<lparr>tx = 0, ty = 0, rotation = 0, scaleX = 1, scaleY = 1\<rparr>
               \<lparr>fill = ''none'', stroke = brush_color (brushSettings local),
                strokeWidth = brush_size (brushSettings local),
                opacity = brush_opacity (brushSettings local),
                fillOpacity = 1, strokeOpacity = 1, gradient = GradientNull\<rparr>
               (Path (brushStrokes local) False))]
       else []),
      local\<lparr>brushStrokes := [], isBrushing := False\<rparr>)"

text \<open>\<^verbatim>\<open>[...new Set(xs)]\<close>: the elements of \<open>xs\<close> in the order of their first occurrence.\<close>

definition uniq :: "'a list \<Rightarrow> 'a list" where
  "uniq xs = fold (\<lambda>a acc. if a \<in> set acc then acc else acc @ [a]) xs []"

text \<open>The ten points of the star, \<^verbatim>\<open>for (let i = 0; i < 10; i++)\<close>.\<close>

definition starPoints :: "real \<Rightarrow> real \<Rightarrow> real \<Rightarrow> real \<Rightarrow> Point list" where
  "starPoints x y w h =
     (let centerX = x + w / 2;
          centerY = y + h / 2;
          outerRadius = min w h / 2;
          innerRadius = outerRadius * (4/10)
      in map (\<lambda>i. let ang = (real i * pi) / 5;
                      radius = (if i mod 2 = 0 then outerRadius else innerRadius)
                  in \<lparr>px = centerX + radius * cos (ang - pi / 2),
                      py = centerY + radius * sin (ang - pi / 2)\<rparr>)
             [0..<10])"

text \<open>
  The object a finished shape gesture adds, by tool; the polygon tool is in the list of
  drawing tools but has no branch, so it adds nothing.
\<close>

definition shapeCalls :: "Tool \<Rightarrow> Point \<Rightarrow> Point \<Rightarrow> real \<Rightarrow> real \<Rightarrow> real \<Rightarrow> real \<Rightarrow> CanvasCall list" where
  "shapeCalls currentTool start point x y w h =
     (if currentTool = ToolRect then
        [OnAddObject (objectLiteral \<lparr>tx = x, ty = y, rotation = 0, scaleX = 1, scaleY = 1\<rparr>
                        baseStyle (Rect w h None None))]
      else if currentTool = ToolCircle \<or> currentTool = ToolEllipse then
        (let radius = min w h / 2
         in [OnAddObject (objectLiteral
                \<lparr>tx = x + w / 2, ty = y + h / 2, rotation = 0, scaleX = 1, scaleY = 1\<rparr>
                baseStyle (Circle radius))])
      else if currentTool = ToolLine then
        [OnAddObject (objectLiteral \<lparr>tx = 0, ty = 0, rotation = 0, scaleX = 1, scaleY = 1\<rparr>
                        (baseStyle\<lparr>fill := ''none''\<rparr>)
                        (Line (px start) (py start) (px point) (py point)))]
      else if currentTool = ToolTriangle then
        (let points = [\<lparr>px = x + w / 2, py = y\<rparr>, \<lparr>px = x, py = y + h\<rparr>,
                       \<lparr>px = x + w, py = y + h\<rparr>]
         in [OnAddObject (objectLiteral \<lparr>tx = 0, ty = 0, rotation = 0, scaleX = 1, scaleY = 1\<rparr>
                            baseStyle (Path points True))])
      else if currentTool = ToolStar then
        [OnAddObject (objectLiteral \<lparr>tx = 0, ty = 0, rotation = 0, scaleX = 1, scaleY = 1\<rparr>
                        baseStyle (Path (starPoints x y w h) True))]
      else [])"

text \<open>
  \<^verbatim>\<open>handleMouseUp\<close>, with the props \<^verbatim>\<open>tool\<close>, \<^verbatim>\<open>objects\<close>, \<^verbatim>\<open>selectedObjectIds\<close>, the
  cells, the canvas point of the event (\<^verbatim>\<open>getCanvasPoint(e.clientX, e.clientY)\<close>) and
  \<^verbatim>\<open>e.shiftKey\<close>. \<^verbatim>\<open>if (editingTextId)\<close> holds for an id that is neither \<^verbatim>\<open>null\<close> nor
  the empty string.
\<close>

definition handleMouseUp ::
  "Tool \<Rightarrow> CanvasObject list \<Rightarrow> string list \<Rightarrow> CanvasLocal \<Rightarrow> Point \<Rightarrow> bool
     \<Rightarrow> CanvasCall list \<times> CanvasLocal" where
  "handleMouseUp currentTool objs selection local point shiftKey =
     (if (case editingTextId local of None \<Rightarrow> False | Some i \<Rightarrow> i \<noteq> []) then ([], local)
      else if currentTool = ToolBrush \<and> isBrushing local then finishBrushStroke local
      else
        let selectCalls =
              (case selectionBox local of
                 None \<Rightarrow> []
               | Some sb \<Rightarrow>
                   if currentTool = ToolSelect then
                     let bx = min (px (box_start sb)) (px (box_end sb));
                         by' = min (py (box_start sb)) (py (box_end sb));
                         bw = \<bar>px (box_end sb) - px (box_start sb)\<bar>;
                         bh = \<bar>py (box_end sb) - py (box_start sb)\<bar>;
                         selectedIds =
                           map oid
                             (filter (\<lambda>obj. let bbox = getBoundingBox obj
                                            in box_x bbox \<ge> bx \<and> box_y bbox \<ge> by' \<and>
                                               box_x bbox + box_width bbox \<le> bx + bw \<and>
                                               box_y bbox + box_height bbox \<le> by' + bh)
                                     objs)
                     in if shiftKey then [OnObjectSelect (uniq (selection @ selectedIds))]
                        else [OnObjectSelect selectedIds]
                   else []);
            drawCalls =
              (case drawingStart local of
                 None \<Rightarrow> []
               | Some start \<Rightarrow>
                   if isDrawing local \<and>
                      currentTool \<in> set [ToolRect, ToolCircle, ToolLine, ToolEllipse,
                                         ToolPolygon, ToolStar, ToolTriangle]
                   then
                     let w = \<bar>px point - px start\<bar>;
                         h = \<bar>py point - py start\<bar>;
                         x = min (px point) (px start);
                         y = min (py point) (py start)
                     in if w > 5 \<or> h > 5 then shapeCalls currentTool start point x y w h
                        else []
                   else [])
        in (selectCalls @ drawCalls,
            local\<lparr>isDragging := False, isDrawing := False, dragStart := None,
                  drawingStart := None, previewObject := None, selectionBox := None\<rparr>))"

text \<open>
  The branch of \<^verbatim>\<open>handleMouseDown\<close> for the seven drawing tools:
  \<^verbatim>\<open>setIsDrawing(true); setDrawingStart(point)\<close>. It is reached when no text is being
  edited, space is not held and the tool is one of the seven.
\<close>

definition shapeMouseDown :: "Point \<Rightarrow> CanvasLocal \<Rightarrow> CanvasLocal" where
  "shapeMouseDown point local = local\<lparr>isDrawing := True, drawingStart := Some point\<rparr>"

subsection \<open>The properties panel (\<^verbatim>\<open>PropertiesPanel\<close>)\<close>






subsection \<open>The application (\<^verbatim>\<open>App\<close>)\<close>

text \<open>
  \<^verbatim>\<open>handleSetActiveLayer\<close> is \<^verbatim>\<open>updateLayer(state.activeLayerId, { id: layerId })\<close>:
  it gives the active layer the id of the layer that was clicked and leaves
  \<^verbatim>\<open>activeLayerId\<close> as it was.
\<close>

definition handleSetActiveLayer :: "CanvasState \<Rightarrow> string \<Rightarrow> HistoryState \<Rightarrow> HistoryState" where
  "handleSetActiveLayer state layerId prev =
     updateLayer state (activeLayerId state) (noLayerUpdates\<lparr>ul_id := Some layerId\<rparr>) prev"

text \<open>
  The props of \<^verbatim>\<open>Canvas\<close>: \<^verbatim>\<open>onAddObject={addObject}\<close> and
  \<^verbatim>\<open>onObjectSelect={selectObjects}\<close>, both built from the document of the render.
  \<open>appCalls\<close> runs the calls of one handler on the history. A handler makes at most one
  \<^verbatim>\<open>onAddObject\<close> call, so one new id is enough.
\<close>

definition appCall :: "CanvasState \<Rightarrow> string \<Rightarrow> CanvasCall \<Rightarrow> HistoryState \<Rightarrow> HistoryState" where
  "appCall state newId call prev =
     (case call of
        OnAddObject obj \<Rightarrow> addObject state newId obj prev
      | OnObjectSelect ids \<Rightarrow> selectObjects state ids prev)"

definition appCalls :: "CanvasState \<Rightarrow> string \<Rightarrow> CanvasCall list \<Rightarrow> HistoryState \<Rightarrow> HistoryState" where
  "appCalls state newId calls prev = fold (appCall state newId) calls prev"

text \<open>
  \<^verbatim>\<open>generateSmoothCurve\<close> returns a string built from template literals. The string is
  kept as its pieces, the literal text and the numbers put into it, in order, so that
  the way JavaScript prints a number is left open; the empty string has no piece.
\<close>

datatype PathPiece = Lit string | Num real

text \<open>
  The loop \<^verbatim>\<open>for (let i = 0; i < points.length - 1; i++)\<close>, from index \<open>i\<close> with the
  path built so far. \<^verbatim>\<open>points[i - 1] || points[i]\<close> is \<^verbatim>\<open>points[i]\<close> at \<open>i = 0\<close>
  only, and \<^verbatim>\<open>points[i + 2] || points[i + 1]\<close> is \<^verbatim>\<open>points[i + 1]\<close> when \<open>i + 2\<close>
  is past the end.
\<close>

function smoothCurveLoop :: "Point list \<Rightarrow> nat \<Rightarrow> PathPiece list \<Rightarrow> PathPiece list" where
  "smoothCurveLoop points i path =
     (if i < length points - 1 then
        let p0 = (if i = 0 then points ! i else points ! (i - 1));
            p1 = points ! i;
            p2 = points ! (i + 1);
            p3 = (if i + 2 < length points then points ! (i + 2) else points ! (i + 1));
            cp1x = px p1 + (px p2 - px p0) / 6;
            cp1y = py p1 + (py p2 - py p0) / 6;
            cp2x = px p2 - (px p3 - px p1) / 6;
            cp2y = py p2 - (py p3 - py p1) / 6
        in smoothCurveLoop points (i + 1)
             (path @ [Lit '' C '', Num cp1x, Lit '' '', Num cp1y, Lit '', '', Num cp2x,
                      Lit '' '', Num cp2y, Lit '', '', Num (px p2), Lit '' '', Num (py p2)])
      else path)"
  by pat_completeness auto
termination
  by (relation "measure (\<lambda>(points, i, path). length points - 1 - i)") auto

declare smoothCurveLoop.simps [simp del]

definition generateSmoothCurve :: "Point list \<Rightarrow> PathPiece list" where
  "generateSmoothCurve points =
     (if length points < 2 then []
      else if length points = 2 then
        [Lit ''M '', Num (px (points ! 0)), Lit '' '', Num (py (points ! 0)),
         Lit '' L '', Num (px (points ! 1)), Lit '' '', Num (py (points ! 1))]
      else
        smoothCurveLoop points 0
          [Lit ''M '', Num (px (points ! 0)), Lit '' '', Num (py (points ! 0))])"

text \<open>
  The curve of the specification, in its words: for \<open>n \<ge> 3\<close> points and each index
  \<open>i = 0..n-2\<close>, with \<open>p0 = point[i-1]\<close> (or \<open>point[i]\<close> if \<open>i = 0\<close>), \<open>p1 = point[i]\<close>,
  \<open>p2 = point[i+1]\<close>, \<open>p3 = point[i+2]\<close> (or \<open>point[i+1]\<close> if out of range), a cubic
  Bezier segment from \<open>p1\<close> to \<open>p2\<close> with control points \<open>cp1 = p1 + (p2-p0)/6\<close> and
  \<open>cp2 = p2 - (p3-p1)/6\<close>. In a path a segment starts where the path stands, so it is
  written by its two control points and its end point.
\<close>

definition plus_point :: "Point \<Rightarrow> Point \<Rightarrow> Point" where
  "plus_point a b = \<lparr>px = px a + px b, py = py a + py b\<rparr>"

definition minus_point :: "Point \<Rightarrow> Point \<Rightarrow> Point" where
  "minus_point a b = \<lparr>px = px a - px b, py = py a - py b\<rparr>"

definition sixth :: "Point \<Rightarrow> Point" where
  "sixth a = \<lparr>px = px a / 6, py = py a / 6\<rparr>"

definition spec_moveTo :: "Point \<Rightarrow> PathPiece list" where
  "spec_moveTo p = [Lit ''M '', Num (px p), Lit '' '', Num (py p)]"

definition spec_lineTo :: "Point \<Rightarrow> PathPiece list" where
  "spec_lineTo p = [Lit '' L '', Num (px p), Lit '' '', Num (py p)]"

definition spec_bezierTo :: "Point \<Rightarrow> Point \<Rightarrow> Point \<Rightarrow> PathPiece list" where
  "spec_bezierTo cp1 cp2 p2 =
     [Lit '' C '', Num (px cp1), Lit '' '', Num (py cp1), Lit '', '', Num (px cp2),
      Lit '' '', Num (py cp2), Lit '', '', Num (px p2), Lit '' '', Num (py p2)]"

definition spec_segment :: "Point list \<Rightarrow> nat \<Rightarrow> PathPiece list" where
  "spec_segment points i =
     (let p0 = (if i = 0 then points ! i else points ! (i - 1));
          p1 = points ! i;
          p2 = points ! (i + 1);
          p3 = (if i + 2 < length points then points ! (i + 2) else points ! (i + 1));
          cp1 = plus_point p1 (sixth (minus_point p2 p0));
          cp2 = minus_point p2 (sixth (minus_point p3 p1))
      in spec_bezierTo cp1 cp2 p2)"

subsection \<open>Saving and opening a project (\<^verbatim>\<open>MenuBar\<close>)\<close>

text \<open>
  \<^verbatim>\<open>handleSave\<close> writes \<^verbatim>\<open>JSON.stringify(data, null, 2)\<close> to a file and
  \<^verbatim>\<open>handleFileOpen\<close> hands \<^verbatim>\<open>JSON.parse(text)\<close> to \<^verbatim>\<open>loadProject\<close>. What passes
  through the text is a JavaScript value: here a number may also be an infinity or NaN,
  and a key may hold \<^verbatim>\<open>undefined\<close>.
\<close>

datatype JSNumber = NumFinite real | PosInfinity | NegInfinity | NotANumber

datatype JSValue =
    JUndefined | JNull | JBool bool | JNum JSNumber | JStr string
  | JArr "JSValue list" | JObj "(string \<times> JSValue) list"

text \<open>
  \<^verbatim>\<open>JSON.parse(JSON.stringify(v))\<close> as one function on values. A number that is not
  finite is written as \<^verbatim>\<open>null\<close>; a key holding \<^verbatim>\<open>undefined\<close> is left out;
  \<^verbatim>\<open>undefined\<close> inside an array is written as \<^verbatim>\<open>null\<close>; a finite number, a string,
  a boolean and \<^verbatim>\<open>null\<close> come back as they were, and the keys of an object keep
  their order. (With real numbers there is no negative zero.)
\<close>

fun jsonRoundTrip :: "JSValue \<Rightarrow> JSValue" where
  "jsonRoundTrip (JNum n) = (case n of NumFinite r \<Rightarrow> JNum (NumFinite r) | _ \<Rightarrow> JNull)"
| "jsonRoundTrip (JArr xs) =
     JArr (map (\<lambda>x. if x = JUndefined then JNull else jsonRoundTrip x) xs)"
| "jsonRoundTrip (JObj kvs) =
     JObj (map (\<lambda>(k, v). (k, jsonRoundTrip v)) (filter (\<lambda>(k, v). v \<noteq> JUndefined) kvs))"
| "jsonRoundTrip v = v"

text \<open>
  \<^verbatim>\<open>v[k]\<close> (\<^verbatim>\<open>undefined\<close> for a missing key and for a value without keys),
  \<^verbatim>\<open>xs[n]\<close>, and the truth value JavaScript gives a value in \<^verbatim>\<open>a || b\<close>.
\<close>

definition getKey :: "string \<Rightarrow> JSValue \<Rightarrow> JSValue" where
  "getKey k v =
     (case v of
        JObj kvs \<Rightarrow> (case map_of kvs k of None \<Rightarrow> JUndefined | Some x \<Rightarrow> x)
      | _ \<Rightarrow> JUndefined)"

fun truthy :: "JSValue \<Rightarrow> bool" where
  "truthy JUndefined = False"
| "truthy JNull = False"
| "truthy (JBool b) = b"
| "truthy (JNum n) = (case n of NumFinite r \<Rightarrow> r \<noteq> 0 | NotANumber \<Rightarrow> False | _ \<Rightarrow> True)"
| "truthy (JStr s) = (s \<noteq> [])"
| "truthy (JArr xs) = True"
| "truthy (JObj kvs) = True"

definition item :: "nat \<Rightarrow> JSValue \<Rightarrow> JSValue" where
  "item n v = (case v of JArr xs \<Rightarrow> (if n < length xs then xs ! n else JUndefined)
               | _ \<Rightarrow> JUndefined)"

text \<open>
  The typed records as the JavaScript values they stand for. An object carries its
  \<^verbatim>\<open>type\<close> tag, the shared keys, the keys of its variant and its id. An optional
  key that is absent (\<^verbatim>\<open>rx\<close>, \<^verbatim>\<open>ry\<close>, \<^verbatim>\<open>gradient\<close>) is left out; the \<^verbatim>\<open>angle\<close>
  of a gradient without one is held as \<^verbatim>\<open>undefined\<close>, as \<^verbatim>\<open>createGradient\<close> makes it.
\<close>

definition numJS :: "real \<Rightarrow> JSValue" where
  "numJS r = JNum (NumFinite r)"

definition pointJS :: "Point \<Rightarrow> JSValue" where
  "pointJS p = JObj [(''x'', numJS (px p)), (''y'', numJS (py p))]"

definition transformJS :: "Transform \<Rightarrow> JSValue" where
  "transformJS t =
     JObj [(''x'', numJS (tx t)), (''y'', numJS (ty t)), (''rotation'', numJS (rotation t)),
           (''scaleX'', numJS (scaleX t)), (''scaleY'', numJS (scaleY t))]"

definition stopJS :: "GradientStop \<Rightarrow> JSValue" where
  "stopJS s =
     JObj [(''offset'', numJS (stop_offset s)), (''color'', JStr (stop_color s)),
           (''opacity'', numJS (stop_opacity s))]"

definition gradientJS :: "Gradient \<Rightarrow> JSValue" where
  "gradientJS g =
     JObj [(''type'', JStr (case gtype g of Linear \<Rightarrow> ''linear'' | Radial \<Rightarrow> ''radial'')),
           (''stops'', JArr (map stopJS (stops g))),
           (''angle'', (case angle g of None \<Rightarrow> JUndefined | Some a \<Rightarrow> numJS a))]"

definition styleJS :: "StyleProperties \<Rightarrow> JSValue" where
  "styleJS st =
     JObj ([(''fill'', JStr (fill st)), (''stroke'', JStr (stroke st)),
            (''strokeWidth'', numJS (strokeWidth st)), (''opacity'', numJS (opacity st)),
            (''fillOpacity'', numJS (fillOpacity st)),
            (''strokeOpacity'', numJS (strokeOpacity st))]
           @ (case gradient st of
                GradientAbsent \<Rightarrow> []
              | GradientNull \<Rightarrow> [(''gradient'', JNull)]
              | GradientValue g \<Rightarrow> [(''gradient'', gradientJS g)]))"

definition optKey :: "string \<Rightarrow> real option \<Rightarrow> (string \<times> JSValue) list" where
  "optKey k v = (case v of None \<Rightarrow> [] | Some r \<Rightarrow> [(k, numJS r)])"

fun shapeTag :: "Shape \<Rightarrow> string" where
  "shapeTag (Rect w h rx ry) = ''rect''"
| "shapeTag (Circle r) = ''circle''"
| "shapeTag (Path ps c) = ''path''"
| "shapeTag (Curve ps cps c) = ''curve''"
| "shapeTag (Text c fs ff fw) = ''text''"
| "shapeTag (Line a1 b1 a2 b2) = ''line''"
| "shapeTag (Image s w h ow oh) = ''image''"

fun shapeKeys :: "Shape \<Rightarrow> (string \<times> JSValue) list" where
  "shapeKeys (Rect w h rx ry) =
     [(''width'', numJS w), (''height'', numJS h)] @ optKey ''rx'' rx @ optKey ''ry'' ry"
| "shapeKeys (Circle r) = [(''radius'', numJS r)]"
| "shapeKeys (Path ps c) = [(''points'', JArr (map pointJS ps)), (''closed'', JBool c)]"
| "shapeKeys (Curve ps cps c) =
     [(''points'', JArr (map pointJS ps)), (''controlPoints'', JArr (map pointJS cps)),
      (''closed'', JBool c)]"
| "shapeKeys (Text c fs ff fw) =
     [(''content'', JStr c), (''fontSize'', numJS fs), (''fontFamily'', JStr ff),
      (''fontWeight'', JStr fw)]"
| "shapeKeys (Line a1 b1 a2 b2) =
     [(''x1'', numJS a1), (''y1'', numJS b1), (''x2'', numJS a2), (''y2'', numJS b2)]"
| "shapeKeys (Image s w h ow oh) =
     [(''src'', JStr s), (''width'', numJS w), (''height'', numJS h),
      (''originalWidth'', numJS ow), (''originalHeight'', numJS oh)]"

definition commonKeys :: "Transform \<Rightarrow> StyleProperties \<Rightarrow> bool \<Rightarrow> bool \<Rightarrow> bool \<Rightarrow> (string \<times> JSValue) list" where
  "commonKeys t st v l s =
     [(''transform'', transformJS t), (''style'', styleJS st), (''visible'', JBool v),
      (''locked'', JBool l), (''selected'', JBool s)]"

definition objectJS :: "CanvasObject \<Rightarrow> JSValue" where
  "objectJS obj =
     JObj ((''type'', JStr (shapeTag (shape obj)))
           # commonKeys (transform obj) (style obj) (visible obj) (locked obj) (selected obj)
           @ shapeKeys (shape obj) @ [(''id'', JStr (oid obj))])"

definition layerJS :: "Layer \<Rightarrow> JSValue" where
  "layerJS l =
     JObj [(''id'', JStr (lid l)), (''name'', JStr (lname l)), (''visible'', JBool (lvisible l)),
           (''locked'', JBool (llocked l)), (''objects'', JArr (map objectJS (objects l)))]"

definition layersJS :: "Layer list \<Rightarrow> JSValue" where
  "layersJS ls = JArr (map layerJS ls)"

definition sizeJS :: "Size \<Rightarrow> JSValue" where
  "sizeJS c = JObj [(''width'', numJS (width c)), (''height'', numJS (height c))]"

text \<open>
  Reading a value as a typed record, key by key: \<open>None\<close> when a key does not hold a
  value of the field's type (a number field needs a finite number).
\<close>

definition asNum :: "JSValue \<Rightarrow> real option" where
  "asNum v = (case v of JNum (NumFinite r) \<Rightarrow> Some r | _ \<Rightarrow> None)"

definition asOptNum :: "JSValue \<Rightarrow> real option option" where
  "asOptNum v = (case v of JUndefined \<Rightarrow> Some None | _ \<Rightarrow> map_option Some (asNum v))"

definition asStr :: "JSValue \<Rightarrow> string option" where
  "asStr v = (case v of JStr s \<Rightarrow> Some s | _ \<Rightarrow> None)"

definition asBool :: "JSValue \<Rightarrow> bool option" where
  "asBool v = (case v of JBool b \<Rightarrow> Some b | _ \<Rightarrow> None)"

definition asArray :: "(JSValue \<Rightarrow> 'a option) \<Rightarrow> JSValue \<Rightarrow> 'a list option" where
  "asArray f v = (case v of JArr xs \<Rightarrow> those (map f xs) | _ \<Rightarrow> None)"

definition asPoint :: "JSValue \<Rightarrow> Point option" where
  "asPoint v = do {
     a \<leftarrow> asNum (getKey ''x'' v);
     b \<leftarrow> asNum (getKey ''y'' v);
     Some \<lparr>px = a, py = b\<rparr> }"

definition asTransform :: "JSValue \<Rightarrow> Transform option" where
  "asTransform v = do {
     a \<leftarrow> asNum (getKey ''x'' v);
     b \<leftarrow> asNum (getKey ''y'' v);
     r \<leftarrow> asNum (getKey ''rotation'' v);
     sx \<leftarrow> asNum (getKey ''scaleX'' v);
     sy \<leftarrow> asNum (getKey ''scaleY'' v);
     Some \<lparr>tx = a, ty = b, rotation = r, scaleX = sx, scaleY = sy\<rparr> }"

definition asStop :: "JSValue \<Rightarrow> GradientStop option" where
  "asStop v = do {
     off \<leftarrow> asNum (getKey ''offset'' v);
     c \<leftarrow> asStr (getKey ''color'' v);
     op \<leftarrow> asNum (getKey ''opacity'' v);
     Some \<lparr>stop_offset = off, stop_color = c, stop_opacity = op\<rparr> }"

definition asGradient :: "JSValue \<Rightarrow> Gradient option" where
  "asGradient v = do {
     t \<leftarrow> asStr (getKey ''type'' v);
     gt \<leftarrow> (if t = ''linear'' then Some Linear else if t = ''radial'' then Some Radial else None);
     ss \<leftarrow> asArray asStop (getKey ''stops'' v);
     a \<leftarrow> asOptNum (getKey ''angle'' v);
     Some \<lparr>gtype = gt, stops = ss, angle = a\<rparr> }"

definition asGradientField :: "JSValue \<Rightarrow> GradientField option" where
  "asGradientField v =
     (case v of JUndefined \<Rightarrow> Some GradientAbsent | JNull \<Rightarrow> Some GradientNull
      | _ \<Rightarrow> map_option GradientValue (asGradient v))"

definition asStyle :: "JSValue \<Rightarrow> StyleProperties option" where
  "asStyle v = do {
     f \<leftarrow> asStr (getKey ''fill'' v);
     s \<leftarrow> asStr (getKey ''stroke'' v);
     sw \<leftarrow> asNum (getKey ''strokeWidth'' v);
     op \<leftarrow> asNum (getKey ''opacity'' v);
     fo \<leftarrow> asNum (getKey ''fillOpacity'' v);
     so \<leftarrow> asNum (getKey ''strokeOpacity'' v);
     g \<leftarrow> asGradientField (getKey ''gradient'' v);
     Some \<lparr>fill = f, stroke = s, strokeWidth = sw, opacity = op, fillOpacity = fo,
           strokeOpacity = so, gradient = g\<rparr> }"

definition asShape :: "JSValue \<Rightarrow> Shape option" where
  "asShape v = do {
     t \<leftarrow> asStr (getKey ''type'' v);
     if t = ''rect'' then do {
       w \<leftarrow> asNum (getKey ''width'' v); h \<leftarrow> asNum (getKey ''height'' v);
       rx \<leftarrow> asOptNum (getKey ''rx'' v); ry \<leftarrow> asOptNum (getKey ''ry'' v);
       Some (Rect w h rx ry) }
     else if t = ''circle'' then do {
       r \<leftarrow> asNum (getKey ''radius'' v);
       Some (Circle r) }
     else if t = ''path'' then do {
       ps \<leftarrow> asArray asPoint (getKey ''points'' v); c \<leftarrow> asBool (getKey ''closed'' v);
       Some (Path ps c) }
     else if t = ''curve'' then do {
       ps \<leftarrow> asArray asPoint (getKey ''points'' v);
       cps \<leftarrow> asArray asPoint (getKey ''controlPoints'' v);
       c \<leftarrow> asBool (getKey ''closed'' v);
       Some (Curve ps cps c) }
     else if t = ''text'' then do {
       c \<leftarrow> asStr (getKey ''content'' v); fs \<leftarrow> asNum (getKey ''fontSize'' v);
       ff \<leftarrow> asStr (getKey ''fontFamily'' v); fw \<leftarrow> asStr (getKey ''fontWeight'' v);
       Some (Text c fs ff fw) }
     else if t = ''line'' then do {
       a1 \<leftarrow> asNum (getKey ''x1'' v); b1 \<leftarrow> asNum (getKey ''y1'' v);
       a2 \<leftarrow> asNum (getKey ''x2'' v); b2 \<leftarrow> asNum (getKey ''y2'' v);
       Some (Line a1 b1 a2 b2) }
     else if t = ''image'' then do {
       s \<leftarrow> asStr (getKey ''src'' v);
       w \<leftarrow> asNum (getKey ''width'' v); h \<leftarrow> asNum (getKey ''height'' v);
       ow \<leftarrow> asNum (getKey ''originalWidth'' v); oh \<leftarrow> asNum (getKey ''originalHeight'' v);
       Some (Image s w h ow oh) }
     else None }"

definition asObject :: "JSValue \<Rightarrow> CanvasObject option" where
  "asObject v = do {
     t \<leftarrow> asTransform (getKey ''transform'' v);
     st \<leftarrow> asStyle (getKey ''style'' v);
     vis \<leftarrow> asBool (getKey ''visible'' v);
     l \<leftarrow> asBool (getKey ''locked'' v);
     s \<leftarrow> asBool (getKey ''selected'' v);
     sh \<leftarrow> asShape v;
     i \<leftarrow> asStr (getKey ''id'' v);
     Some \<lparr>transform = t, style = st, visible = vis, locked = l, selected = s, shape = sh,
           oid = i\<rparr> }"

definition asLayer :: "JSValue \<Rightarrow> Layer option" where
  "asLayer v = do {
     i \<leftarrow> asStr (getKey ''id'' v);
     n \<leftarrow> asStr (getKey ''name'' v);
     vis \<leftarrow> asBool (getKey ''visible'' v);
     l \<leftarrow> asBool (getKey ''locked'' v);
     os \<leftarrow> asArray asObject (getKey ''objects'' v);
     Some \<lparr>lid = i, lname = n, lvisible = vis, llocked = l, objects = os\<rparr> }"

definition asSize :: "JSValue \<Rightarrow> Size option" where
  "asSize v = do {
     w \<leftarrow> asNum (getKey ''width'' v);
     h \<leftarrow> asNum (getKey ''height'' v);
     Some \<lparr>width = w, height = h\<rparr> }"

text \<open>
  The object \<^verbatim>\<open>data\<close> of \<^verbatim>\<open>handleSave\<close>: \<open>created\<close> is
  \<^verbatim>\<open>new Date().toISOString()\<close>, \<open>timestamp\<close> is \<^verbatim>\<open>Date.now()\<close>, and the layers and
  the canvas size are the values the component holds. The file holds its
  \<^verbatim>\<open>JSON.stringify\<close> text.
\<close>

definition handleSave :: "string \<Rightarrow> real \<Rightarrow> JSValue \<Rightarrow> JSValue \<Rightarrow> JSValue" where
  "handleSave created timestamp layersValue canvasSizeValue =
     JObj [(''version'', JStr ''1.0''), (''application'', JStr ''VectorStudio Pro''),
           (''created'', JStr created), (''layers'', layersValue),
           (''canvasSize'', canvasSizeValue), (''timestamp'', numJS timestamp)]"

text \<open>
  The \<^verbatim>\<open>data: any\<close> of \<^verbatim>\<open>loadProject\<close>, read as the typed \<open>ProjectData option\<close>:
  \<^verbatim>\<open>null\<close> is \<open>None\<close>; a key holding a falsy value counts as missing, as under
  \<^verbatim>\<open>||\<close>; the outer \<open>None\<close> stands for data whose keys hold something the typed
  document cannot hold. \<open>handleFileOpen\<close> is \<^verbatim>\<open>onLoadProject(JSON.parse(text))\<close> with
  the parsed value as argument.
\<close>

definition readLayers :: "JSValue \<Rightarrow> Layer list option option" where
  "readLayers v = (if truthy v then map_option Some (asArray asLayer v) else Some None)"

definition readId :: "JSValue \<Rightarrow> string option option" where
  "readId v = (if truthy v then map_option Some (asStr v) else Some None)"

definition readSize :: "JSValue \<Rightarrow> Size option option" where
  "readSize v = (if truthy v then map_option Some (asSize v) else Some None)"

definition projectDataOf :: "JSValue \<Rightarrow> ProjectData option option" where
  "projectDataOf data =
     (if data = JNull \<or> data = JUndefined then Some None
      else do {
        ls \<leftarrow> readLayers (getKey ''layers'' data);
        a \<leftarrow> readId (getKey ''activeLayerId'' data);
        c \<leftarrow> readSize (getKey ''canvasSize'' data);
        Some (Some \<lparr>d_layers = ls, d_activeLayerId = a, d_canvasSize = c\<rparr>) })"

definition handleFileOpen :: "JSValue \<Rightarrow> HistoryState \<Rightarrow> HistoryState option" where
  "handleFileOpen data prev = map_option (\<lambda>d. loadProject d prev) (projectDataOf data)"

subsection \<open>Example documents\<close>

text \<open>
  A rectangle as the rect tool adds it at the origin (\<^verbatim>\<open>handleMouseUp\<close>, then
  \<^verbatim>\<open>addObject\<close>), the gradient \<^verbatim>\<open>createGradient('linear')\<close> makes, and a document with
  two rectangles in its layer, both selected, the first one with the gradient.
\<close>

definition drawnRect :: "string \<Rightarrow> real \<Rightarrow> real \<Rightarrow> CanvasObject" where
  "drawnRect i w h =
     \<lparr>transform = \<lparr>tx = 0, ty = 0, rotation = 0, scaleX = 1, scaleY = 1\<rparr>,
      style = baseStyle, visible = True, locked = False, selected = False,
      shape = Rect w h None None, oid = i\<rparr>"




text \<open>
  The history after \<^verbatim>\<open>addLayer\<close> on the initial document and a click on the first
  layer in the layers panel (\<^verbatim>\<open>onSetActiveLayer('layer-1')\<close>).
\<close>

definition renamedHistory :: HistoryState where
  "renamedHistory =
     handleSetActiveLayer (present (addLayer createInitialState 1700000000000 initialHistory))
       ''layer-1'' (addLayer createInitialState 1700000000000 initialHistory)"

text \<open>
  The layers of a document whose one rectangle has the width \<^verbatim>\<open>Infinity\<close>: the object
  \<^verbatim>\<open>svgElementToObject\<close> makes of \<^verbatim>\<open><rect width="Infinity"/>\<close> (\<^verbatim>\<open>getAttr\<close> keeps
  every attribute that \<^verbatim>\<open>Number\<close> can read), with the id \<^verbatim>\<open>addObject\<close> gives it, in
  the layer of the initial document.
\<close>

definition infiniteRectLayers :: JSValue where
  "infiniteRectLayers =
     JArr [JObj [(''id'', JStr ''layer-1''), (''name'', JStr ''Layer 1''),
                 (''visible'', JBool True), (''locked'', JBool False),
                 (''objects'',
                    JArr [JObj ((''id'', JStr ''obj-1'')
                                # commonKeys \<lparr>tx = 0, ty = 0, rotation = 0, scaleX = 1, scaleY = 1\<rparr>
                                    \<lparr>fill = ''#000000'', stroke = ''none'', strokeWidth = 0,
                                     opacity = 1, fillOpacity = 1, strokeOpacity = 1,
                                     gradient = GradientNull\<rparr>
                                    True False False
                                @ [(''type'', JStr ''rect''), (''width'', JNum PosInfinity),
                                   (''height'', numJS 100), (''rx'', numJS 0),
                                   (''ry'', numJS 0)])])]]"

section \<open>Properties\<close>

subsection \<open>Undo and redo after a commit\<close>

text \<open>
  C1. Whatever the history, committing a new document \<open>D'\<close> over the present \<open>D\<close> and
  then undoing gives behind \<open>D\<close> as the present, and a redo after that undo gives \<open>D'\<close>
  again. The equalities are equalities of documents, field by field.
\<close>

theorem undo_redo_after_commit:
  "present (undo (pushToHistory D' h)) = present h \<and>
   present (redo (undo (pushToHistory D' h))) = D'"
proof -
  define kept where "kept = drop (length (past h) - 50) (past h)"
  have pushed: "pushToHistory D' h = \<lparr>past = kept @ [present h], present = D', future = []\<rparr>"
    by (simp add: pushToHistory_def kept_def)
  have undone: "undo (pushToHistory D' h) = \<lparr>past = kept, present = present h, future = [D']\<rparr>"
    by (simp add: pushed undo_def Let_def)
  have redone: "redo (undo (pushToHistory D' h)) =
                  \<lparr>past = kept @ [present h], present = D', future = []\<rparr>"
    by (simp add: undone redo_def Let_def)
  have "present (undo (pushToHistory D' h)) = present h"
    by (simp add: undone)
  moreover have "present (redo (undo (pushToHistory D' h))) = D'"
    by (simp add: redone)
  ultimately show ?thesis
    by (rule conjI)
qed

subsection \<open>Operations that do not commit\<close>

text \<open>
  C5. Tool selection, selection change, zoom change and pan change give a history with
  the same past and the same future, whatever document the callback was built from and
  whatever history the update meets: nothing is pushed and the redo stack is kept.
  Only \<open>present\<close> is replaced, by the callback's document with the one change.
\<close>

theorem non_committing_keep_stacks:
  "past (setTool state t prev) = past prev \<and> future (setTool state t prev) = future prev \<and>
   past (selectObjects state ids prev) = past prev \<and>
   future (selectObjects state ids prev) = future prev \<and>
   past (setZoom state z prev) = past prev \<and> future (setZoom state z prev) = future prev \<and>
   past (setPan state p prev) = past prev \<and> future (setPan state p prev) = future prev \<and>
   present (setTool state t prev) = state\<lparr>tool := t, selectedObjectIds := []\<rparr> \<and>
   present (selectObjects state ids prev) = state\<lparr>selectedObjectIds := ids\<rparr> \<and>
   present (setZoom state z prev) = state\<lparr>zoom := max (1/10) (min 5 z)\<rparr> \<and>
   present (setPan state p prev) = state\<lparr>pan := p\<rparr>"
  by (simp add: setTool_def selectObjects_def setZoom_def setPan_def Let_def)

subsection \<open>The size of the stacks\<close>

lemma length_past_pushToHistory:
  "length (past (pushToHistory s h)) = min (length (past h)) 50 + 1"
  by (simp add: pushToHistory_def min_def)

lemma length_past_commits:
  "past h = [] \<Longrightarrow> length (past ((pushToHistory s ^^ n) h)) = min n 51"
  by (induction n) (auto simp: length_past_pushToHistory min_def)

text \<open>
  What the code keeps in every reachable history: at most 51 snapshots on \<open>past\<close>
  and \<open>future\<close> together, and at most 50 on \<open>future\<close>.
\<close>

lemma reachable_bounds:
  "h \<in> reachable \<Longrightarrow> length (past h) + length (future h) \<le> 51 \<and> length (future h) \<le> 50"
proof (induction rule: reachable.induct)
  case start
  then show ?case by (simp add: initialHistory_def)
next
  case (commit h s)
  then show ?case by (simp add: pushToHistory_def)
next
  case (transient h s)
  then show ?case by simp
next
  case (undone h)
  then show ?case by (auto simp: undo_def Let_def)
next
  case (redone h)
  then show ?case by (cases "future h") (auto simp: redo_def Let_def)
next
  case (loaded h d)
  then show ?case by (auto simp: loadProject_def Let_def split: option.splits)
qed

text \<open>
  A commit over a past of 51 snapshots drops the oldest one and keeps the other 50
  in order, followed by the old present.
\<close>

lemma commit_on_full_past:
  "length (past h) = 51 \<Longrightarrow> past (pushToHistory s h) = tl (past h) @ [present h]"
  by (simp add: pushToHistory_def drop_Suc)

text \<open>
  C2. The claim bounds both stacks by 50 and has a commit at the cap drop the oldest
  past entry. In the code \<open>pushToHistory\<close> keeps the last 50 past entries and then
  appends the old present: after 50 commits from the initial history the past holds 50
  snapshots, the next commit drops nothing (the new past is the old past with the old
  present appended), and the past holds 51.
\<close>

theorem fifty_one_commits:
  "length (past ((pushToHistory createInitialState ^^ 50) initialHistory)) = 50 \<and>
   length (past ((pushToHistory createInitialState ^^ 51) initialHistory)) = 51 \<and>
   past (pushToHistory createInitialState
           ((pushToHistory createInitialState ^^ 50) initialHistory))
     = past ((pushToHistory createInitialState ^^ 50) initialHistory)
       @ [present ((pushToHistory createInitialState ^^ 50) initialHistory)]"
proof -
  have e: "past initialHistory = []" by (simp add: initialHistory_def)
  have l50: "length (past ((pushToHistory createInitialState ^^ 50) initialHistory)) = 50"
    using length_past_commits [OF e, where s = createInitialState and n = 50] by simp
  have l51: "length (past ((pushToHistory createInitialState ^^ 51) initialHistory)) = 51"
    using length_past_commits [OF e, where s = createInitialState and n = 51] by simp
  have "past (pushToHistory s h) = past h @ [present h]" if "length (past h) = 50" for s h
    using that by (simp add: pushToHistory_def)
  from this [OF l50] l50 l51 show ?thesis by simp
qed

subsection \<open>Rejected operations\<close>

lemma findIndex_none: "\<forall>a \<in> set as. \<not> P a \<Longrightarrow> findIndex P as = -1"
  by (induction as) auto

lemma findIndex_first: "\<forall>a \<in> set as. \<not> P a \<Longrightarrow> P b \<Longrightarrow> findIndex P (as @ b # bs) = int (length as)"
  by (induction as) (auto simp: Let_def)

text \<open>
  C4. Each of these leaves the history (past, present document and future) as it was:
  deleting a layer when the document has one layer (or none); moving a layer whose id
  no layer has; moving the first layer up; moving the last layer down (the id being at
  that position only); undo on an empty past; redo on an empty future. So a document
  with one layer still has one layer after its layer is "deleted".
\<close>

theorem rejected_operations_change_nothing:
  "(length (layers state) \<le> 1 \<longrightarrow> deleteLayer state layerId prev = prev) \<and>
   (length (layers (present prev)) = 1 \<longrightarrow>
      length (layers (present (deleteLayer (present prev) layerId prev))) = 1) \<and>
   (layerId \<notin> lid ` set (layers state) \<longrightarrow> moveLayer state layerId direction prev = prev) \<and>
   (layers state = l # rest \<and> lid l = layerId \<longrightarrow> moveLayer state layerId Up prev = prev) \<and>
   (layers state = front @ [l] \<and> lid l = layerId \<and> layerId \<notin> lid ` set front \<longrightarrow>
      moveLayer state layerId Down prev = prev) \<and>
   (past prev = [] \<longrightarrow> undo prev = prev) \<and>
   (future prev = [] \<longrightarrow> redo prev = prev)"
proof -
  have absent: "moveLayer state layerId direction prev = prev"
    if "layerId \<notin> lid ` set (layers state)"
  proof -
    have "findIndex (\<lambda>layer. lid layer = layerId) (layers state) = -1"
      using that by (intro findIndex_none) auto
    then show ?thesis by (simp add: moveLayer_def)
  qed
  have first: "moveLayer state layerId Up prev = prev"
    if "layers state = l # rest \<and> lid l = layerId"
    using that by (simp add: moveLayer_def)
  have last: "moveLayer state layerId Down prev = prev"
    if "layers state = front @ [l] \<and> lid l = layerId \<and> layerId \<notin> lid ` set front"
  proof -
    have "findIndex (\<lambda>layer. lid layer = layerId) (front @ l # []) = int (length front)"
      using that by (intro findIndex_first) (auto simp: image_iff)
    then show ?thesis using that by (simp add: moveLayer_def Let_def)
  qed
  show ?thesis
    using absent first last by (simp add: deleteLayer_def undo_def redo_def)
qed

theorem rejected_operations_witness:
  "length (layers createInitialState) \<le> 1 \<and>
   deleteLayer createInitialState ''layer-1'' initialHistory = initialHistory \<and>
   length (layers (present initialHistory)) = 1 \<and>
   length (layers (present (deleteLayer (present initialHistory) ''layer-1'' initialHistory))) = 1 \<and>
   ''layer-2'' \<notin> lid ` set (layers createInitialState) \<and>
   moveLayer createInitialState ''layer-2'' Down initialHistory = initialHistory \<and>
   layers createInitialState = hd (layers createInitialState) # [] \<and>
   lid (hd (layers createInitialState)) = ''layer-1'' \<and>
   moveLayer createInitialState ''layer-1'' Up initialHistory = initialHistory \<and>
   layers createInitialState = [] @ [hd (layers createInitialState)] \<and>
   ''layer-1'' \<notin> lid ` set [] \<and>
   moveLayer createInitialState ''layer-1'' Down initialHistory = initialHistory \<and>
   past initialHistory = [] \<and> undo initialHistory = initialHistory \<and>
   future initialHistory = [] \<and> redo initialHistory = initialHistory"
proof -
  have h1: "length (layers createInitialState) \<le> 1"
    and h2: "length (layers (present initialHistory)) = 1"
    and h3: "''layer-2'' \<notin> lid ` set (layers createInitialState)"
    and h4: "layers createInitialState = hd (layers createInitialState) # [] \<and>
             lid (hd (layers createInitialState)) = ''layer-1''"
    and h5: "layers createInitialState = [] @ [hd (layers createInitialState)] \<and>
             lid (hd (layers createInitialState)) = ''layer-1'' \<and> ''layer-1'' \<notin> lid ` set []"
    and h6: "past initialHistory = []"
    and h7: "future initialHistory = []"
    by (simp_all add: createInitialState_def initialHistory_def)
  note a = rejected_operations_change_nothing
             [where state = createInitialState and prev = initialHistory
                and layerId = "''layer-1''" and l = "hd (layers createInitialState)"
                and rest = "[]" and front = "[]"]
  note b = rejected_operations_change_nothing
             [where state = createInitialState and prev = initialHistory
                and layerId = "''layer-2''" and direction = Down]
  from a h1 have c1: "deleteLayer createInitialState ''layer-1'' initialHistory = initialHistory"
    by blast
  from a h2 have c2:
    "length (layers (present (deleteLayer (present initialHistory) ''layer-1'' initialHistory))) = 1"
    by blast
  from b h3 have c3: "moveLayer createInitialState ''layer-2'' Down initialHistory = initialHistory"
    by blast
  from a h4 have c4: "moveLayer createInitialState ''layer-1'' Up initialHistory = initialHistory"
    by blast
  from a h5 have c5: "moveLayer createInitialState ''layer-1'' Down initialHistory = initialHistory"
    by blast
  from a h6 have c6: "undo initialHistory = initialHistory"
    by blast
  from a h7 have c7: "redo initialHistory = initialHistory"
    by blast
  from h1 h2 h3 h4 h5 h6 h7 c1 c2 c3 c4 c5 c6 c7 show ?thesis
    by blast
qed

subsection \<open>Saving and loading\<close>

text \<open>The round trip through the text gives every typed value back.\<close>

lemma numJS_rt [simp]: "jsonRoundTrip (numJS r) = numJS r" "numJS r \<noteq> JUndefined" "asNum (numJS r) = Some r"
  "asOptNum (numJS r) = Some (Some r)"
  by (simp_all add: numJS_def asNum_def asOptNum_def)

lemma asArray_roundtrip:
  assumes "\<And>a. f (jsonRoundTrip (enc a)) = Some a" and "\<And>a. enc a \<noteq> JUndefined"
  shows "asArray f (jsonRoundTrip (JArr (map enc as))) = Some as"
  using assms by (induction as) (simp_all add: asArray_def)

lemma point_rt: "asPoint (jsonRoundTrip (pointJS p)) = Some p"
  by (simp add: asPoint_def pointJS_def getKey_def)

lemma transform_rt: "asTransform (jsonRoundTrip (transformJS t)) = Some t"
  by (simp add: asTransform_def transformJS_def getKey_def)

lemma stop_rt: "asStop (jsonRoundTrip (stopJS s)) = Some s"
  by (simp add: asStop_def stopJS_def getKey_def asStr_def)

lemma encoded_defined [simp]:
  "pointJS p \<noteq> JUndefined" "transformJS t \<noteq> JUndefined" "stopJS s \<noteq> JUndefined"
  "gradientJS g \<noteq> JUndefined" "styleJS st \<noteq> JUndefined" "objectJS obj \<noteq> JUndefined"
  "layerJS l \<noteq> JUndefined" "sizeJS c \<noteq> JUndefined" "layersJS ls \<noteq> JUndefined"
  by (simp_all add: pointJS_def transformJS_def stopJS_def gradientJS_def styleJS_def
        objectJS_def layerJS_def sizeJS_def layersJS_def)

lemma asOptNum_undefined [simp]: "asOptNum JUndefined = Some None"
  by (simp add: asOptNum_def)

lemma gradient_rt: "asGradient (jsonRoundTrip (gradientJS g)) = Some g"
proof -
  have s: "asArray asStop (jsonRoundTrip (JArr (map stopJS (stops g)))) = Some (stops g)"
    by (rule asArray_roundtrip, rule stop_rt, simp)
  show ?thesis
    using s
    by (cases "gtype g"; cases "angle g")
       (simp_all add: asGradient_def gradientJS_def getKey_def asStr_def
          del: jsonRoundTrip.simps(2))
qed

lemma gradientField_rt:
  "asGradientField (jsonRoundTrip (gradientJS g)) = Some (GradientValue g)"
proof -
  obtain kvs where o: "jsonRoundTrip (gradientJS g) = JObj kvs"
    by (simp add: gradientJS_def)
  have "asGradientField (JObj kvs) = map_option GradientValue (asGradient (JObj kvs))"
    by (simp add: asGradientField_def)
  with o gradient_rt [of g] show ?thesis by simp
qed

lemma asGradientField_simps [simp]:
  "asGradientField JUndefined = Some GradientAbsent" "asGradientField JNull = Some GradientNull"
  by (simp_all add: asGradientField_def)

lemma style_rt: "asStyle (jsonRoundTrip (styleJS st)) = Some st"
  by (cases "gradient st")
     (simp_all add: asStyle_def styleJS_def getKey_def asStr_def gradientField_rt)

lemma points_rt: "asArray asPoint (jsonRoundTrip (JArr (map pointJS ps))) = Some ps"
  by (rule asArray_roundtrip, rule point_rt, simp)

lemma object_rt: "asObject (jsonRoundTrip (objectJS obj)) = Some obj"
proof (cases "shape obj")
  case (Rect w h rx ry)
  then show ?thesis
    by (cases rx; cases ry)
       (simp_all add: asObject_def objectJS_def commonKeys_def getKey_def asShape_def
          optKey_def asStr_def asBool_def transform_rt style_rt)
next
  case (Circle r)
  then show ?thesis
    by (simp add: asObject_def objectJS_def commonKeys_def getKey_def asShape_def
          asStr_def asBool_def transform_rt style_rt)
next
  case (Path ps c)
  then show ?thesis
    by (simp add: asObject_def objectJS_def commonKeys_def getKey_def asShape_def
          asStr_def asBool_def transform_rt style_rt points_rt del: jsonRoundTrip.simps(2))
next
  case (Curve ps cps c)
  then show ?thesis
    by (simp add: asObject_def objectJS_def commonKeys_def getKey_def asShape_def
          asStr_def asBool_def transform_rt style_rt points_rt del: jsonRoundTrip.simps(2))
next
  case (Text c fs ff fw)
  then show ?thesis
    by (simp add: asObject_def objectJS_def commonKeys_def getKey_def asShape_def
          asStr_def asBool_def transform_rt style_rt)
next
  case (Line a1 b1 a2 b2)
  then show ?thesis
    by (simp add: asObject_def objectJS_def commonKeys_def getKey_def asShape_def
          asStr_def asBool_def transform_rt style_rt)
next
  case (Image s w h ow oh)
  then show ?thesis
    by (simp add: asObject_def objectJS_def commonKeys_def getKey_def asShape_def
          asStr_def asBool_def transform_rt style_rt)
qed

lemma layer_rt: "asLayer (jsonRoundTrip (layerJS l)) = Some l"
proof -
  have "asArray asObject (jsonRoundTrip (JArr (map objectJS (objects l)))) = Some (objects l)"
    by (rule asArray_roundtrip, rule object_rt, simp)
  then show ?thesis
    by (simp add: asLayer_def layerJS_def getKey_def asStr_def asBool_def
          del: jsonRoundTrip.simps(2))
qed

lemma layers_rt: "asArray asLayer (jsonRoundTrip (layersJS ls)) = Some ls"
  unfolding layersJS_def by (rule asArray_roundtrip, rule layer_rt, simp)

lemma size_rt: "asSize (jsonRoundTrip (sizeJS c)) = Some c"
  by (simp add: asSize_def sizeJS_def getKey_def)


lemma projectData_saved:
  "projectDataOf (jsonRoundTrip (handleSave created timestamp (layersJS ls) (sizeJS c)))
     = Some (Some \<lparr>d_layers = Some ls, d_activeLayerId = None, d_canvasSize = Some c\<rparr>)"
proof -
  have t1: "truthy (jsonRoundTrip (layersJS ls))"
    by (simp add: layersJS_def)
  have t2: "truthy (jsonRoundTrip (sizeJS c))"
    by (simp add: sizeJS_def)
  show ?thesis
    by (simp add: projectDataOf_def handleSave_def getKey_def readLayers_def readId_def
          readSize_def t1 t2 layers_rt size_rt)
qed

text \<open>
  C9, as the code has it. For every document of the typed model, whose numbers are all
  finite, opening the file that \<open>handleSave\<close> wrote gives a history with empty stacks
  whose present has the layers of \<open>D\<close> (the same objects with every field, in the same
  layers and order) and the canvas size of \<open>D\<close>; the selection is empty, the zoom is 1,
  the tool is the selection tool and the pan is (100, 100), whatever they were in \<open>D\<close>.
  The active layer becomes the first layer (\<^verbatim>\<open>'layer-1'\<close> when there is none or its id
  is empty).
\<close>

theorem load_after_save:
  "handleFileOpen
     (jsonRoundTrip (handleSave created timestamp (layersJS (layers D)) (sizeJS (canvasSize D)))) h
     = Some \<lparr>past = [],
             present = D\<lparr>activeLayerId := orElse (firstLayerId (Some (layers D))) ''layer-1'',
                         selectedObjectIds := [], zoom := 1, pan := \<lparr>px = 100, py = 100\<rparr>,
                         tool := ToolSelect\<rparr>,
             future = []\<rparr>"
  by (simp add: handleFileOpen_def projectData_saved loadProject_def orElse_def Let_def)

text \<open>
  C9 as stated fails for a document that holds a number that is not finite: the width
  \<^verbatim>\<open>Infinity\<close> of the rectangle is written as \<^verbatim>\<open>null\<close>, the layers that reach
  \<^verbatim>\<open>loadProject\<close> are truthy and are taken as they are, and the width they hold is
  \<^verbatim>\<open>null\<close>.
\<close>

theorem load_after_save_counterexample:
  "getKey ''width'' (item 0 (getKey ''objects'' (item 0 infiniteRectLayers))) = JNum PosInfinity \<and>
   truthy (getKey ''layers''
     (jsonRoundTrip (handleSave ''2026-01-01T00:00:00.000Z'' 1767225600000 infiniteRectLayers
                       (sizeJS \<lparr>width = 4000, height = 4000\<rparr>)))) \<and>
   getKey ''width'' (item 0 (getKey ''objects'' (item 0 (getKey ''layers''
     (jsonRoundTrip (handleSave ''2026-01-01T00:00:00.000Z'' 1767225600000 infiniteRectLayers
                       (sizeJS \<lparr>width = 4000, height = 4000\<rparr>)))))))
     = JNull"
  by (simp add: handleSave_def infiniteRectLayers_def getKey_def item_def commonKeys_def sizeJS_def)


text \<open>
  C10, as the code has it. After \<open>loadProject\<close> on any data other than \<^verbatim>\<open>null\<close> (or
  \<^verbatim>\<open>undefined\<close>) both stacks are empty and \<open>canUndo\<close> and \<open>canRedo\<close> are false, so
  \<open>undo\<close> changes nothing and the document from before the load is not recovered.
  On \<^verbatim>\<open>null\<close> the load fails inside the \<^verbatim>\<open>try\<close> and the history is left as it was.
\<close>

theorem loadProject_clears_stacks:
  "past (loadProject (Some d) h) = [] \<and> future (loadProject (Some d) h) = [] \<and>
   \<not> canUndo (loadProject (Some d) h) \<and> \<not> canRedo (loadProject (Some d) h) \<and>
   undo (loadProject (Some d) h) = loadProject (Some d) h \<and>
   loadProject None h = h"
  by (simp add: loadProject_def canUndo_def canRedo_def undo_def Let_def)

text \<open>
  C10 as stated fails for the data \<^verbatim>\<open>null\<close>: after one commit over the initial
  document and a load of \<^verbatim>\<open>null\<close>, \<open>canUndo\<close> is true and \<open>undo\<close> brings the initial
  document behind.
\<close>

theorem loadProject_null_counterexample:
  "canUndo (loadProject None
              (pushToHistory (createInitialState\<lparr>zoom := 2\<rparr>) initialHistory)) \<and>
   present (undo (loadProject None
                    (pushToHistory (createInitialState\<lparr>zoom := 2\<rparr>) initialHistory)))
     = createInitialState"
  by (simp add: loadProject_def canUndo_def pushToHistory_def undo_def initialHistory_def Let_def)

subsection \<open>Updating objects\<close>









subsection \<open>Shape gestures\<close>

lemma shapeCalls_length: "length (shapeCalls t start point x y w h) \<le> 1"
  by (simp add: shapeCalls_def Let_def)

lemma addObject_unique_active:
  assumes "layers state = front @ l # behind" and "lid l = activeLayerId state"
    and "activeLayerId state \<notin> lid ` set front" and "activeLayerId state \<notin> lid ` set behind"
  shows "allObjects (present (addObject state newId body prev)) =
           concat (map objects front) @ objects l
           @ [\<lparr>transform = transform body, style = style body, visible = visible body,
                locked = locked body, selected = selected body, shape = shape body,
                oid = newId\<rparr>]
           @ concat (map objects behind)"
proof -
  have keep: "map (\<lambda>layer. if lid layer = a then f layer else layer) ls = ls"
    if "a \<notin> lid ` set ls" for a f and ls :: "Layer list"
    using that by (induction ls) auto
  have ex: "list_ex (\<lambda>layer. lid layer = activeLayerId state) (layers state)"
    using assms(1,2) by (simp add: list_ex_iff)
  show ?thesis
    using ex assms
    by (simp add: addObject_def Let_def pushToHistory_def allObjects_def keep)
qed

lemma decimal_now: "decimal 1700000000000 = ''1700000000000''"
  by (simp add: decimal.simps [of "numeral n" for n] decimal.simps [of "Suc 0"])

lemma decimal_two: "decimal (Suc (Suc 0)) = ''2''"
  by (subst decimal.simps) (simp add: numeral_2_eq_2 [symmetric])

lemma renamedHistory_eq:
  "renamedHistory =
     \<lparr>past = [createInitialState],
      present = createInitialState
        \<lparr>layers := [\<lparr>lid = ''layer-1'', lname = ''Layer 1'', lvisible = True, llocked = False,
                     objects = []\<rparr>,
                    \<lparr>lid = ''layer-1'', lname = ''Layer 2'', lvisible = True, llocked = False,
                     objects = []\<rparr>],
         activeLayerId := ''layer-1700000000000''\<rparr>,
      future = []\<rparr>"
  by (simp add: renamedHistory_def handleSetActiveLayer_def updateLayer_def addLayer_def
        pushToHistory_def initialHistory_def createInitialState_def decimal_now decimal_two
        spreadLayer_def spreadKey_def noLayerUpdates_def Let_def)

lemma shapeCalls_one:
  assumes "t \<in> set [ToolRect, ToolCircle, ToolLine, ToolEllipse, ToolPolygon, ToolStar, ToolTriangle]"
    and "t \<noteq> ToolPolygon"
  shows "\<exists>body. shapeCalls t start point x y w h = [OnAddObject body]"
  using assms by (auto simp: shapeCalls_def Let_def)

lemma addObject_commit:
  assumes "list_ex (\<lambda>layer. lid layer = activeLayerId state) (layers state)"
  shows "addObject state newId body prev =
     \<lparr>past = drop (length (past prev) - 50) (past prev) @ [present prev],
      present = state
        \<lparr>layers := map (\<lambda>layer. if lid layer = activeLayerId state
                                then layer\<lparr>objects := objects layer
                                       @ [\<lparr>transform = transform body, style = style body,
                                           visible = visible body, locked = locked body,
                                           selected = selected body, shape = shape body,
                                           oid = newId\<rparr>]\<rparr>
                                else layer) (layers state),
         selectedObjectIds := [newId]\<rparr>,
      future = []\<rparr>"
  using assms by (simp add: addObject_def pushToHistory_def Let_def)

lemma addObject_rejected:
  "\<not> list_ex (\<lambda>layer. lid layer = activeLayerId state) (layers state) \<Longrightarrow>
   addObject state newId body prev = prev"
  by (simp add: addObject_def Let_def)


text \<open>
  C6, as the code has it. No text being edited, a rect gesture from (0,0) to (3,3) makes
  no \<^verbatim>\<open>onAddObject\<close> call and leaves the history as it was. A rect gesture from (0,0)
  to (10,10) makes one call, with a rectangle of width 10 and height 10 at (0,0). When
  some layer carries the active id, \<open>addObject\<close> commits: the old present goes on top of
  the past (the last 50 entries of which are kept), the future is cleared, the new id is
  the selection, and the rectangle is appended to every layer carrying the active id,
  so to one place when one layer carries it, as in the initial document. When no layer
  carries the active id, \<open>addObject\<close> returns and the history is as it was. For every
  drawing tool: when neither the width nor the height of the dragged box is above 5 the
  mouse-up adds nothing and the history is as it was; when it adds something, the width
  or the height is above 5; it never adds more than one object, and for every tool but
  the polygon it adds one when the threshold is passed, which is a commit when some
  layer carries the active id. In each case \<open>isDrawing\<close> is false and the anchor and the
  preview are cleared.
\<close>

theorem shape_gesture_commits:
  assumes "editingTextId local = None"
  shows
  "fst (handleMouseUp ToolRect objs selection
          (shapeMouseDown \<lparr>px = 0, py = 0\<rparr> local) \<lparr>px = 3, py = 3\<rparr> shiftKey) = [] \<and>
   appCalls state newId
     (fst (handleMouseUp ToolRect objs selection
             (shapeMouseDown \<lparr>px = 0, py = 0\<rparr> local) \<lparr>px = 3, py = 3\<rparr> shiftKey)) prev = prev \<and>
   fst (handleMouseUp ToolRect objs selection
          (shapeMouseDown \<lparr>px = 0, py = 0\<rparr> local) \<lparr>px = 10, py = 10\<rparr> shiftKey)
     = [OnAddObject
          \<lparr>transform = \<lparr>tx = 0, ty = 0, rotation = 0, scaleX = 1, scaleY = 1\<rparr>,
           style = baseStyle, visible = True, locked = False, selected = False,
           shape = Rect 10 10 None None\<rparr>] \<and>
   appCalls createInitialState newId
     (fst (handleMouseUp ToolRect objs selection
             (shapeMouseDown \<lparr>px = 0, py = 0\<rparr> local) \<lparr>px = 10, py = 10\<rparr> shiftKey))
     initialHistory
     = \<lparr>past = [createInitialState],
        present = createInitialState
          \<lparr>layers := [\<lparr>lid = ''layer-1'', lname = ''Layer 1'', lvisible = True,
                       llocked = False, objects = [drawnRect newId 10 10]\<rparr>],
           selectedObjectIds := [newId]\<rparr>,
        future = []\<rparr> \<and>
   (list_ex (\<lambda>layer. lid layer = activeLayerId state) (layers state) \<longrightarrow>
      appCalls state newId
        (fst (handleMouseUp ToolRect objs selection
                (shapeMouseDown \<lparr>px = 0, py = 0\<rparr> local) \<lparr>px = 10, py = 10\<rparr> shiftKey)) prev
      = \<lparr>past = drop (length (past prev) - 50) (past prev) @ [present prev],
         present = state
           \<lparr>layers := map (\<lambda>layer. if lid layer = activeLayerId state
                                   then layer\<lparr>objects := objects layer @ [drawnRect newId 10 10]\<rparr>
                                   else layer) (layers state),
            selectedObjectIds := [newId]\<rparr>,
         future = []\<rparr>) \<and>
   (layers state = front @ l # behind \<and> lid l = activeLayerId state \<and>
    activeLayerId state \<notin> lid ` set front \<and> activeLayerId state \<notin> lid ` set behind \<longrightarrow>
      allObjects (present (appCalls state newId
        (fst (handleMouseUp ToolRect objs selection
                (shapeMouseDown \<lparr>px = 0, py = 0\<rparr> local) \<lparr>px = 10, py = 10\<rparr> shiftKey)) prev))
      = concat (map objects front) @ objects l @ [drawnRect newId 10 10]
        @ concat (map objects behind)) \<and>
   (\<not> list_ex (\<lambda>layer. lid layer = activeLayerId state) (layers state) \<longrightarrow>
      appCalls state newId
        (fst (handleMouseUp ToolRect objs selection
                (shapeMouseDown \<lparr>px = 0, py = 0\<rparr> local) \<lparr>px = 10, py = 10\<rparr> shiftKey)) prev
      = prev) \<and>
   (t \<in> set [ToolRect, ToolCircle, ToolLine, ToolEllipse, ToolPolygon, ToolStar, ToolTriangle] \<longrightarrow>
      (\<bar>px point - px start\<bar> \<le> 5 \<and> \<bar>py point - py start\<bar> \<le> 5 \<longrightarrow>
         fst (handleMouseUp t objs selection (shapeMouseDown start local) point shiftKey) = [] \<and>
         appCalls state newId
           (fst (handleMouseUp t objs selection (shapeMouseDown start local) point shiftKey)) prev
           = prev) \<and>
      (fst (handleMouseUp t objs selection (shapeMouseDown start local) point shiftKey) \<noteq> [] \<longrightarrow>
         \<bar>px point - px start\<bar> > 5 \<or> \<bar>py point - py start\<bar> > 5) \<and>
      length (fst (handleMouseUp t objs selection (shapeMouseDown start local) point shiftKey)) \<le> 1 \<and>
      (t \<noteq> ToolPolygon \<and> (\<bar>px point - px start\<bar> > 5 \<or> \<bar>py point - py start\<bar> > 5) \<longrightarrow>
         length (fst (handleMouseUp t objs selection (shapeMouseDown start local) point shiftKey)) = 1) \<and>
      (t \<noteq> ToolPolygon \<and> (\<bar>px point - px start\<bar> > 5 \<or> \<bar>py point - py start\<bar> > 5) \<and>
       list_ex (\<lambda>layer. lid layer = activeLayerId state) (layers state) \<longrightarrow>
         past (appCalls state newId
                 (fst (handleMouseUp t objs selection (shapeMouseDown start local) point shiftKey))
                 prev)
           = drop (length (past prev) - 50) (past prev) @ [present prev] \<and>
         future (appCalls state newId
                   (fst (handleMouseUp t objs selection (shapeMouseDown start local) point shiftKey))
                   prev) = []) \<and>
      isDrawing (snd (handleMouseUp t objs selection (shapeMouseDown start local) point shiftKey))
        = False \<and>
      drawingStart (snd (handleMouseUp t objs selection (shapeMouseDown start local) point shiftKey))
        = None \<and>
      previewObject (snd (handleMouseUp t objs selection (shapeMouseDown start local) point shiftKey))
        = None)"
    (is "?c1 \<and> ?c2 \<and> ?c3 \<and> ?c4 \<and> ?c5 \<and> ?c6 \<and> ?c7 \<and> ?c8")
proof -
  let ?body = "\<lparr>transform = \<lparr>tx = 0, ty = 0, rotation = 0, scaleX = 1, scaleY = 1\<rparr>,
           style = baseStyle, visible = True, locked = False, selected = False,
           shape = Rect 10 10 None None\<rparr>"
  let ?tools = "[ToolRect, ToolCircle, ToolLine, ToolEllipse, ToolPolygon, ToolStar, ToolTriangle]"
  have small: "fst (handleMouseUp ToolRect objs selection
          (shapeMouseDown \<lparr>px = 0, py = 0\<rparr> local) \<lparr>px = 3, py = 3\<rparr> shiftKey) = []"
    using assms by (simp add: handleMouseUp_def shapeMouseDown_def Let_def split: option.splits)
  have large: "fst (handleMouseUp ToolRect objs selection
          (shapeMouseDown \<lparr>px = 0, py = 0\<rparr> local) \<lparr>px = 10, py = 10\<rparr> shiftKey)
     = [OnAddObject ?body]"
    using assms
    by (simp add: handleMouseUp_def shapeMouseDown_def shapeCalls_def objectLiteral_def Let_def
          split: option.splits)
  have nil: "appCalls st newId [] h = h" for st h
    by (simp add: appCalls_def)
  have add: "appCalls st newId [OnAddObject b] h = addObject st newId b h" for st b h
    by (simp add: appCalls_def appCall_def)
  have doc0: "addObject createInitialState newId ?body initialHistory
     = \<lparr>past = [createInitialState],
        present = createInitialState
          \<lparr>layers := [\<lparr>lid = ''layer-1'', lname = ''Layer 1'', lvisible = True,
                       llocked = False, objects = [drawnRect newId 10 10]\<rparr>],
           selectedObjectIds := [newId]\<rparr>,
        future = []\<rparr>"
    by (simp add: addObject_def pushToHistory_def initialHistory_def drawnRect_def Let_def)
       (simp add: createInitialState_def)
  have committed: "addObject state newId ?body prev
      = \<lparr>past = drop (length (past prev) - 50) (past prev) @ [present prev],
         present = state
           \<lparr>layers := map (\<lambda>layer. if lid layer = activeLayerId state
                                   then layer\<lparr>objects := objects layer @ [drawnRect newId 10 10]\<rparr>
                                   else layer) (layers state),
            selectedObjectIds := [newId]\<rparr>,
         future = []\<rparr>"
    if "list_ex (\<lambda>layer. lid layer = activeLayerId state) (layers state)"
    using that by (simp add: addObject_commit drawnRect_def)
  have unique: "allObjects (present (addObject state newId ?body prev))
      = concat (map objects front) @ objects l @ [drawnRect newId 10 10]
        @ concat (map objects behind)"
    if "layers state = front @ l # behind \<and> lid l = activeLayerId state \<and>
        activeLayerId state \<notin> lid ` set front \<and> activeLayerId state \<notin> lid ` set behind"
    using that by (simp add: addObject_unique_active drawnRect_def)
  have rejected: "addObject state newId ?body prev = prev"
    if "\<not> list_ex (\<lambda>layer. lid layer = activeLayerId state) (layers state)"
    using that by (rule addObject_rejected)
  have calls: "fst (handleMouseUp t objs selection (shapeMouseDown start local) point shiftKey)
      = (if \<bar>px point - px start\<bar> > 5 \<or> \<bar>py point - py start\<bar> > 5
         then shapeCalls t start point (min (px point) (px start)) (min (py point) (py start))
                \<bar>px point - px start\<bar> \<bar>py point - py start\<bar>
         else [])"
    if "t \<in> set ?tools"
    using assms that
    by (auto simp add: handleMouseUp_def shapeMouseDown_def Let_def split: option.splits)
  have cells:
    "isDrawing (snd (handleMouseUp t objs selection (shapeMouseDown start local) point shiftKey))
       = False \<and>
     drawingStart (snd (handleMouseUp t objs selection (shapeMouseDown start local) point shiftKey))
       = None \<and>
     previewObject (snd (handleMouseUp t objs selection (shapeMouseDown start local) point shiftKey))
       = None"
    if "t \<in> set ?tools"
    using assms that
    by (auto simp add: handleMouseUp_def shapeMouseDown_def Let_def split: option.splits)
  have one: "length (shapeCalls t start point x y w h) = 1"
    if "t \<in> set ?tools" and "t \<noteq> ToolPolygon" for x y w h
    using that by (auto simp: shapeCalls_def Let_def)
  have stacks:
    "t \<noteq> ToolPolygon \<and> (\<bar>px point - px start\<bar> > 5 \<or> \<bar>py point - py start\<bar> > 5) \<and>
       list_ex (\<lambda>layer. lid layer = activeLayerId state) (layers state) \<longrightarrow>
     past (appCalls state newId
             (fst (handleMouseUp t objs selection (shapeMouseDown start local) point shiftKey)) prev)
       = drop (length (past prev) - 50) (past prev) @ [present prev] \<and>
     future (appCalls state newId
               (fst (handleMouseUp t objs selection (shapeMouseDown start local) point shiftKey))
               prev) = []"
    if t: "t \<in> set ?tools"
  proof (rule impI)
    assume a: "t \<noteq> ToolPolygon \<and> (\<bar>px point - px start\<bar> > 5 \<or> \<bar>py point - py start\<bar> > 5) \<and>
       list_ex (\<lambda>layer. lid layer = activeLayerId state) (layers state)"
    then have np: "t \<noteq> ToolPolygon"
      and big: "\<bar>px point - px start\<bar> > 5 \<or> \<bar>py point - py start\<bar> > 5"
      and ex: "list_ex (\<lambda>layer. lid layer = activeLayerId state) (layers state)"
      by simp_all
    obtain b where
      "shapeCalls t start point (min (px point) (px start)) (min (py point) (py start))
         \<bar>px point - px start\<bar> \<bar>py point - py start\<bar> = [OnAddObject b]"
      using shapeCalls_one [OF t np] by blast
    with calls [OF t] big
    have "fst (handleMouseUp t objs selection (shapeMouseDown start local) point shiftKey)
            = [OnAddObject b]"
      by simp
    then show "past (appCalls state newId
             (fst (handleMouseUp t objs selection (shapeMouseDown start local) point shiftKey)) prev)
       = drop (length (past prev) - 50) (past prev) @ [present prev] \<and>
     future (appCalls state newId
               (fst (handleMouseUp t objs selection (shapeMouseDown start local) point shiftKey))
               prev) = []"
      by (simp add: add addObject_commit [OF ex])
  qed
  have general:
    "(\<bar>px point - px start\<bar> \<le> 5 \<and> \<bar>py point - py start\<bar> \<le> 5 \<longrightarrow>
         fst (handleMouseUp t objs selection (shapeMouseDown start local) point shiftKey) = [] \<and>
         appCalls state newId
           (fst (handleMouseUp t objs selection (shapeMouseDown start local) point shiftKey)) prev
           = prev) \<and>
      (fst (handleMouseUp t objs selection (shapeMouseDown start local) point shiftKey) \<noteq> [] \<longrightarrow>
         \<bar>px point - px start\<bar> > 5 \<or> \<bar>py point - py start\<bar> > 5) \<and>
      length (fst (handleMouseUp t objs selection (shapeMouseDown start local) point shiftKey)) \<le> 1 \<and>
      (t \<noteq> ToolPolygon \<and> (\<bar>px point - px start\<bar> > 5 \<or> \<bar>py point - py start\<bar> > 5) \<longrightarrow>
         length (fst (handleMouseUp t objs selection (shapeMouseDown start local) point shiftKey)) = 1)"
    if "t \<in> set ?tools"
    using calls [OF that] one [OF that] shapeCalls_length [of t start point] nil
    by (auto split: if_splits)
  have c1: ?c1 by (rule small)
  have c2: ?c2 by (simp only: small nil)
  have c3: ?c3 by (rule large)
  have c4: ?c4 by (simp only: large add doc0)
  have c5: ?c5 unfolding large add by (rule impI) (rule committed)
  have c6: ?c6 unfolding large add by (rule impI) (rule unique)
  have c7: ?c7 unfolding large add by (rule impI) (rule rejected)
  have c8: ?c8
  proof (rule impI)
    assume t: "t \<in> set ?tools"
    note g = general [OF t] and ce = cells [OF t]
    note g1 = g [THEN conjunct1] and g2 = g [THEN conjunct2, THEN conjunct1]
      and g3 = g [THEN conjunct2, THEN conjunct2, THEN conjunct1]
      and g4 = g [THEN conjunct2, THEN conjunct2, THEN conjunct2]
      and ce1 = ce [THEN conjunct1] and ce2 = ce [THEN conjunct2, THEN conjunct1]
      and ce3 = ce [THEN conjunct2, THEN conjunct2]
    show "(\<bar>px point - px start\<bar> \<le> 5 \<and> \<bar>py point - py start\<bar> \<le> 5 \<longrightarrow>
         fst (handleMouseUp t objs selection (shapeMouseDown start local) point shiftKey) = [] \<and>
         appCalls state newId
           (fst (handleMouseUp t objs selection (shapeMouseDown start local) point shiftKey)) prev
           = prev) \<and>
      (fst (handleMouseUp t objs selection (shapeMouseDown start local) point shiftKey) \<noteq> [] \<longrightarrow>
         \<bar>px point - px start\<bar> > 5 \<or> \<bar>py point - py start\<bar> > 5) \<and>
      length (fst (handleMouseUp t objs selection (shapeMouseDown start local) point shiftKey)) \<le> 1 \<and>
      (t \<noteq> ToolPolygon \<and> (\<bar>px point - px start\<bar> > 5 \<or> \<bar>py point - py start\<bar> > 5) \<longrightarrow>
         length (fst (handleMouseUp t objs selection (shapeMouseDown start local) point shiftKey)) = 1) \<and>
      (t \<noteq> ToolPolygon \<and> (\<bar>px point - px start\<bar> > 5 \<or> \<bar>py point - py start\<bar> > 5) \<and>
       list_ex (\<lambda>layer. lid layer = activeLayerId state) (layers state) \<longrightarrow>
         past (appCalls state newId
                 (fst (handleMouseUp t objs selection (shapeMouseDown start local) point shiftKey))
                 prev)
           = drop (length (past prev) - 50) (past prev) @ [present prev] \<and>
         future (appCalls state newId
                   (fst (handleMouseUp t objs selection (shapeMouseDown start local) point shiftKey))
                   prev) = []) \<and>
      isDrawing (snd (handleMouseUp t objs selection (shapeMouseDown start local) point shiftKey))
        = False \<and>
      drawingStart (snd (handleMouseUp t objs selection (shapeMouseDown start local) point shiftKey))
        = None \<and>
      previewObject (snd (handleMouseUp t objs selection (shapeMouseDown start local) point shiftKey))
        = None"
      by (intro conjI g1 g2 g3 g4 stacks [OF t] ce1 ce2 ce3)
  qed
  show ?thesis
    by (intro conjI c1 c2 c3 c4 c5 c6 c7 c8)
qed


theorem shape_gesture_witness:
  "editingTextId initialLocal = None \<and>
   list_ex (\<lambda>layer. lid layer = activeLayerId createInitialState) (layers createInitialState) \<and>
   appCalls createInitialState ''obj-1''
     (fst (handleMouseUp ToolRect [] []
             (shapeMouseDown \<lparr>px = 0, py = 0\<rparr> initialLocal) \<lparr>px = 10, py = 10\<rparr> False))
     initialHistory
     = \<lparr>past = [createInitialState],
        present = createInitialState
          \<lparr>layers := [\<lparr>lid = ''layer-1'', lname = ''Layer 1'', lvisible = True,
                       llocked = False, objects = [drawnRect ''obj-1'' 10 10]\<rparr>],
           selectedObjectIds := [''obj-1'']\<rparr>,
        future = []\<rparr> \<and>
   layers createInitialState = [] @ hd (layers createInitialState) # [] \<and>
   lid (hd (layers createInitialState)) = activeLayerId createInitialState \<and>
   activeLayerId createInitialState \<notin> lid ` set [] \<and>
   allObjects (present (appCalls createInitialState ''obj-1''
     (fst (handleMouseUp ToolRect [] []
             (shapeMouseDown \<lparr>px = 0, py = 0\<rparr> initialLocal) \<lparr>px = 10, py = 10\<rparr> False))
     initialHistory))
     = [drawnRect ''obj-1'' 10 10] \<and>
   \<not> list_ex (\<lambda>layer. lid layer = activeLayerId (present renamedHistory))
         (layers (present renamedHistory)) \<and>
   appCalls (present renamedHistory) ''obj-1''
     (fst (handleMouseUp ToolRect [] []
             (shapeMouseDown \<lparr>px = 0, py = 0\<rparr> initialLocal) \<lparr>px = 10, py = 10\<rparr> False))
     renamedHistory = renamedHistory \<and>
   ToolLine \<in> set [ToolRect, ToolCircle, ToolLine, ToolEllipse, ToolPolygon, ToolStar, ToolTriangle] \<and>
   \<bar>px \<lparr>px = 3, py = 4\<rparr> - px \<lparr>px = 0, py = 0\<rparr>\<bar> \<le> 5 \<and>
   \<bar>py \<lparr>px = 3, py = 4\<rparr> - py \<lparr>px = 0, py = 0\<rparr>\<bar> \<le> 5 \<and>
   fst (handleMouseUp ToolLine [] [] (shapeMouseDown \<lparr>px = 0, py = 0\<rparr> initialLocal)
          \<lparr>px = 3, py = 4\<rparr> False) = [] \<and>
   ToolLine \<noteq> ToolPolygon \<and>
   \<bar>px \<lparr>px = 30, py = 4\<rparr> - px \<lparr>px = 0, py = 0\<rparr>\<bar> > 5 \<and>
   fst (handleMouseUp ToolLine [] [] (shapeMouseDown \<lparr>px = 0, py = 0\<rparr> initialLocal)
          \<lparr>px = 30, py = 4\<rparr> False) \<noteq> [] \<and>
   length (fst (handleMouseUp ToolLine [] [] (shapeMouseDown \<lparr>px = 0, py = 0\<rparr> initialLocal)
                  \<lparr>px = 30, py = 4\<rparr> False)) = 1 \<and>
   past (appCalls createInitialState ''obj-1''
           (fst (handleMouseUp ToolLine [] [] (shapeMouseDown \<lparr>px = 0, py = 0\<rparr> initialLocal)
                   \<lparr>px = 30, py = 4\<rparr> False)) initialHistory)
     = [createInitialState] \<and>
   future (appCalls createInitialState ''obj-1''
             (fst (handleMouseUp ToolLine [] [] (shapeMouseDown \<lparr>px = 0, py = 0\<rparr> initialLocal)
                     \<lparr>px = 30, py = 4\<rparr> False)) initialHistory)
     = []"
proof -
  have e: "editingTextId initialLocal = None"
    by (simp add: initialLocal_def)
  have ex: "list_ex (\<lambda>layer. lid layer = activeLayerId createInitialState)
              (layers createInitialState)"
    by (simp add: createInitialState_def)
  have u: "layers createInitialState = [] @ hd (layers createInitialState) # [] \<and>
           lid (hd (layers createInitialState)) = activeLayerId createInitialState \<and>
           activeLayerId createInitialState \<notin> lid ` set [] \<and>
           activeLayerId createInitialState \<notin> lid ` set []"
    by (simp add: createInitialState_def)
  have nex: "\<not> list_ex (\<lambda>layer. lid layer = activeLayerId (present renamedHistory))
               (layers (present renamedHistory))"
    by (simp add: renamedHistory_eq)
  have tl: "ToolLine \<in> set [ToolRect, ToolCircle, ToolLine, ToolEllipse, ToolPolygon, ToolStar,
                              ToolTriangle]"
    by simp
  have sm: "\<bar>px \<lparr>px = 3, py = 4\<rparr> - px \<lparr>px = 0, py = 0\<rparr>\<bar> \<le> 5 \<and>
            \<bar>py \<lparr>px = 3, py = 4\<rparr> - py \<lparr>px = 0, py = 0\<rparr>\<bar> \<le> 5"
    by simp
  have bg: "\<bar>px \<lparr>px = 30, py = 4\<rparr> - px \<lparr>px = 0, py = 0\<rparr>\<bar> > 5"
    by simp
  note first = shape_gesture_commits
      [OF e, where objs = "[]" and selection = "[]" and shiftKey = False
         and state = createInitialState and prev = initialHistory and newId = "''obj-1''"
         and front = "[]" and behind = "[]" and l = "hd (layers createInitialState)"
         and t = ToolLine and start = "\<lparr>px = 0, py = 0\<rparr>" and point = "\<lparr>px = 3, py = 4\<rparr>"]
  note second = shape_gesture_commits
      [OF e, where objs = "[]" and selection = "[]" and shiftKey = False
         and state = "present renamedHistory" and prev = renamedHistory and newId = "''obj-1''"
         and t = ToolLine and start = "\<lparr>px = 0, py = 0\<rparr>" and point = "\<lparr>px = 30, py = 4\<rparr>"]
  note third = shape_gesture_commits
      [OF e, where objs = "[]" and selection = "[]" and shiftKey = False
         and state = createInitialState and prev = initialHistory and newId = "''obj-1''"
         and t = ToolLine and start = "\<lparr>px = 0, py = 0\<rparr>" and point = "\<lparr>px = 30, py = 4\<rparr>"]
  have a4: "appCalls createInitialState ''obj-1''
     (fst (handleMouseUp ToolRect [] []
             (shapeMouseDown \<lparr>px = 0, py = 0\<rparr> initialLocal) \<lparr>px = 10, py = 10\<rparr> False))
     initialHistory
     = \<lparr>past = [createInitialState],
        present = createInitialState
          \<lparr>layers := [\<lparr>lid = ''layer-1'', lname = ''Layer 1'', lvisible = True,
                       llocked = False, objects = [drawnRect ''obj-1'' 10 10]\<rparr>],
           selectedObjectIds := [''obj-1'']\<rparr>,
        future = []\<rparr>"
    by (rule first [THEN conjunct2, THEN conjunct2, THEN conjunct2, THEN conjunct1])
  have a6: "allObjects (present (appCalls createInitialState ''obj-1''
     (fst (handleMouseUp ToolRect [] []
             (shapeMouseDown \<lparr>px = 0, py = 0\<rparr> initialLocal) \<lparr>px = 10, py = 10\<rparr> False))
     initialHistory))
     = [drawnRect ''obj-1'' 10 10]"
    using first [THEN conjunct2, THEN conjunct2, THEN conjunct2, THEN conjunct2, THEN conjunct2,
                 THEN conjunct1, THEN mp, OF u]
    by (simp add: createInitialState_def)
  have a7: "appCalls (present renamedHistory) ''obj-1''
     (fst (handleMouseUp ToolRect [] []
             (shapeMouseDown \<lparr>px = 0, py = 0\<rparr> initialLocal) \<lparr>px = 10, py = 10\<rparr> False))
     renamedHistory = renamedHistory"
    by (rule second [THEN conjunct2, THEN conjunct2, THEN conjunct2, THEN conjunct2, THEN conjunct2,
                     THEN conjunct2, THEN conjunct1, THEN mp, OF nex])
  note f8 = first [THEN conjunct2, THEN conjunct2, THEN conjunct2, THEN conjunct2, THEN conjunct2,
                   THEN conjunct2, THEN conjunct2, THEN mp, OF tl]
  note t8 = third [THEN conjunct2, THEN conjunct2, THEN conjunct2, THEN conjunct2, THEN conjunct2,
                   THEN conjunct2, THEN conjunct2, THEN mp, OF tl]
  have s1: "fst (handleMouseUp ToolLine [] [] (shapeMouseDown \<lparr>px = 0, py = 0\<rparr> initialLocal)
          \<lparr>px = 3, py = 4\<rparr> False) = []"
    by (rule f8 [THEN conjunct1, THEN mp, OF sm, THEN conjunct1])
  have np: "ToolLine \<noteq> ToolPolygon" by simp
  have l1: "length (fst (handleMouseUp ToolLine [] [] (shapeMouseDown \<lparr>px = 0, py = 0\<rparr> initialLocal)
                  \<lparr>px = 30, py = 4\<rparr> False)) = 1"
    using t8 [THEN conjunct2, THEN conjunct2, THEN conjunct2, THEN conjunct1] np bg by blast
  then have ne: "fst (handleMouseUp ToolLine [] [] (shapeMouseDown \<lparr>px = 0, py = 0\<rparr> initialLocal)
          \<lparr>px = 30, py = 4\<rparr> False) \<noteq> []"
    by auto
  have st: "past (appCalls createInitialState ''obj-1''
           (fst (handleMouseUp ToolLine [] [] (shapeMouseDown \<lparr>px = 0, py = 0\<rparr> initialLocal)
                   \<lparr>px = 30, py = 4\<rparr> False)) initialHistory)
     = [createInitialState] \<and>
   future (appCalls createInitialState ''obj-1''
             (fst (handleMouseUp ToolLine [] [] (shapeMouseDown \<lparr>px = 0, py = 0\<rparr> initialLocal)
                     \<lparr>px = 30, py = 4\<rparr> False)) initialHistory)
     = []"
    using t8 [THEN conjunct2, THEN conjunct2, THEN conjunct2, THEN conjunct2, THEN conjunct1]
          np bg ex
    by (simp add: initialHistory_def)
  show ?thesis
    using e ex a4 u a6 nex a7 tl sm s1 np bg ne l1 st
    by (intro conjI) (elim conjE, assumption)+
qed

text \<open>
  C6 as stated fails on a document a session reaches: after a layer is added and the
  first layer is clicked, no layer carries the active id, and the rect gesture from
  (0,0) to (10,10) makes its \<^verbatim>\<open>onAddObject\<close> call but nothing is committed: the
  history is as it was and the document has no object.
\<close>

theorem shape_gesture_counterexample:
  "renamedHistory =
     handleSetActiveLayer (present (addLayer createInitialState 1700000000000 initialHistory))
       ''layer-1'' (addLayer createInitialState 1700000000000 initialHistory) \<and>
   fst (handleMouseUp ToolRect (allObjects (present renamedHistory))
          (selectedObjectIds (present renamedHistory))
          (shapeMouseDown \<lparr>px = 0, py = 0\<rparr> initialLocal) \<lparr>px = 10, py = 10\<rparr> False)
     = [OnAddObject
          \<lparr>transform = \<lparr>tx = 0, ty = 0, rotation = 0, scaleX = 1, scaleY = 1\<rparr>,
           style = baseStyle, visible = True, locked = False, selected = False,
           shape = Rect 10 10 None None\<rparr>] \<and>
   appCalls (present renamedHistory) ''obj-1''
     (fst (handleMouseUp ToolRect (allObjects (present renamedHistory))
             (selectedObjectIds (present renamedHistory))
             (shapeMouseDown \<lparr>px = 0, py = 0\<rparr> initialLocal) \<lparr>px = 10, py = 10\<rparr> False))
     renamedHistory = renamedHistory \<and>
   allObjects (present (appCalls (present renamedHistory) ''obj-1''
     (fst (handleMouseUp ToolRect (allObjects (present renamedHistory))
             (selectedObjectIds (present renamedHistory))
             (shapeMouseDown \<lparr>px = 0, py = 0\<rparr> initialLocal) \<lparr>px = 10, py = 10\<rparr> False))
     renamedHistory)) = []"
proof -
  have calls: "fst (handleMouseUp ToolRect objs selection
          (shapeMouseDown \<lparr>px = 0, py = 0\<rparr> initialLocal) \<lparr>px = 10, py = 10\<rparr> False)
     = [OnAddObject
          \<lparr>transform = \<lparr>tx = 0, ty = 0, rotation = 0, scaleX = 1, scaleY = 1\<rparr>,
           style = baseStyle, visible = True, locked = False, selected = False,
           shape = Rect 10 10 None None\<rparr>]" for objs selection
    by (simp add: handleMouseUp_def shapeMouseDown_def shapeCalls_def objectLiteral_def
          initialLocal_def Let_def)
  have nex: "\<not> list_ex (\<lambda>layer. lid layer = activeLayerId (present renamedHistory))
               (layers (present renamedHistory))"
    by (simp add: renamedHistory_eq)
  have same: "appCalls (present renamedHistory) ''obj-1'' [OnAddObject b] renamedHistory
                = renamedHistory" for b
    by (simp add: appCalls_def appCall_def addObject_rejected [OF nex])
  have none: "allObjects (present renamedHistory) = []"
    by (simp add: renamedHistory_eq allObjects_def)
  show ?thesis
    by (simp only: calls same none) (simp add: renamedHistory_def)
qed


subsection \<open>The smooth curve\<close>

lemma smoothCurveLoop_step:
  "i < length points - 1 \<Longrightarrow>
   smoothCurveLoop points i path = smoothCurveLoop points (i + 1) (path @ spec_segment points i)"
  by (subst smoothCurveLoop.simps)
     (simp add: spec_segment_def spec_bezierTo_def plus_point_def minus_point_def
        sixth_def Let_def)

lemma smoothCurveLoop_done:
  "\<not> i < length points - 1 \<Longrightarrow> smoothCurveLoop points i path = path"
  by (subst smoothCurveLoop.simps) simp

text \<open>The loop adds the segments of the indices it still has to visit, in order.\<close>

lemma smoothCurveLoop_segments:
  "smoothCurveLoop points i path
     = path @ concat (map (spec_segment points) [i..<length points - 1])"
proof (induction "length points - 1 - i" arbitrary: i path)
  case 0
  then show ?case by (simp add: smoothCurveLoop_done)
next
  case (Suc k)
  then have less: "i < length points - 1" and k: "k = length points - 1 - (i + 1)"
    by simp_all
  have "smoothCurveLoop points i path
          = smoothCurveLoop points (i + 1) (path @ spec_segment points i)"
    by (rule smoothCurveLoop_step [OF less])
  also have "\<dots> = (path @ spec_segment points i)
                    @ concat (map (spec_segment points) [i + 1..<length points - 1])"
    by (rule Suc.hyps(1) [OF k])
  also have "\<dots> = path @ concat (map (spec_segment points) (i # [i + 1..<length points - 1]))"
    by simp
  also have "i # [i + 1..<length points - 1] = [i..<length points - 1]"
    using less by (simp add: upt_conv_Cons)
  finally show ?case .
qed

text \<open>
  C7. On fewer than two points \<open>generateSmoothCurve\<close> returns the empty path; on two
  points a move to the first followed by a line to the second; on three or more a move
  to the first point followed, for each index \<open>i\<close> from 0 to \<open>n - 2\<close> in order, by the
  Bezier segment of the specification (\<open>spec_segment\<close>).
\<close>

theorem generateSmoothCurve_spec:
  "(length points < 2 \<longrightarrow> generateSmoothCurve points = []) \<and>
   (length points = 2 \<longrightarrow>
      generateSmoothCurve points = spec_moveTo (points ! 0) @ spec_lineTo (points ! 1)) \<and>
   (length points \<ge> 3 \<longrightarrow>
      generateSmoothCurve points =
        spec_moveTo (points ! 0)
        @ concat (map (spec_segment points) [0..<length points - 1]))"
  by (simp add: generateSmoothCurve_def smoothCurveLoop_segments spec_moveTo_def spec_lineTo_def)

theorem generateSmoothCurve_witness:
  "length [\<lparr>px = 0, py = 0\<rparr>] < 2 \<and> generateSmoothCurve [\<lparr>px = 0, py = 0\<rparr>] = [] \<and>
   length [\<lparr>px = 0, py = 0\<rparr>, \<lparr>px = 6, py = 12\<rparr>] = 2 \<and>
   generateSmoothCurve [\<lparr>px = 0, py = 0\<rparr>, \<lparr>px = 6, py = 12\<rparr>]
     = [Lit ''M '', Num 0, Lit '' '', Num 0, Lit '' L '', Num 6, Lit '' '', Num 12] \<and>
   length [\<lparr>px = 0, py = 0\<rparr>, \<lparr>px = 6, py = 12\<rparr>, \<lparr>px = 18, py = 0\<rparr>] \<ge> 3 \<and>
   generateSmoothCurve [\<lparr>px = 0, py = 0\<rparr>, \<lparr>px = 6, py = 12\<rparr>, \<lparr>px = 18, py = 0\<rparr>]
     = [Lit ''M '', Num 0, Lit '' '', Num 0,
        Lit '' C '', Num 1, Lit '' '', Num 2, Lit '', '', Num 3, Lit '' '', Num 12,
        Lit '', '', Num 6, Lit '' '', Num 12,
        Lit '' C '', Num 9, Lit '' '', Num 12, Lit '', '', Num 16, Lit '' '', Num 2,
        Lit '', '', Num 18, Lit '' '', Num 0]"
proof -
  have two: "[0..<2] = [0, 1]" by (simp add: upt_conv_Cons)
  show ?thesis
    using generateSmoothCurve_spec [of "[\<lparr>px = 0, py = 0\<rparr>]"]
          generateSmoothCurve_spec [of "[\<lparr>px = 0, py = 0\<rparr>, \<lparr>px = 6, py = 12\<rparr>]"]
          generateSmoothCurve_spec
            [of "[\<lparr>px = 0, py = 0\<rparr>, \<lparr>px = 6, py = 12\<rparr>, \<lparr>px = 18, py = 0\<rparr>]"]
    by (simp add: spec_moveTo_def spec_lineTo_def spec_segment_def spec_bezierTo_def
          plus_point_def minus_point_def sixth_def two)
qed

subsection \<open>The canvas size\<close>

text \<open>What the code keeps: from a canvas of at least 4000 by 4000, both sides stay
  at least 4000, and one of the two sides does not shrink.\<close>

lemma updateCanvasSize_bounds:
  "width (localCanvasSize local) \<ge> 4000 \<Longrightarrow> height (localCanvasSize local) \<ge> 4000 \<Longrightarrow>
   width (updateCanvasSize objs local newPoint extra) \<ge> 4000 \<and>
   height (updateCanvasSize objs local newPoint extra) \<ge> 4000 \<and>
   (width (updateCanvasSize objs local newPoint extra) \<ge> width (localCanvasSize local) \<or>
    height (updateCanvasSize objs local newPoint extra) \<ge> height (localCanvasSize local))"
  by (auto simp: updateCanvasSize_def Let_def)

text \<open>
  C8. The claim has both sides of the canvas never shrink. In the code a resize is made
  when either side has to grow, and then sets both sides to the newly computed values.
  With a 10 by 6900 rectangle as the only object the initial 4000 by 4000 canvas
  becomes 5100 by 8100; with that rectangle gone and a 6900 by 10 rectangle as the only
  object, the next call makes it 8100 by 5100: the height drops from 8100 to 5100.
\<close>

theorem canvas_height_shrinks:
  "updateCanvasSize [drawnRect ''obj-1'' 10 6900] initialLocal None []
     = \<lparr>width = 5100, height = 8100\<rparr> \<and>
   updateCanvasSize [drawnRect ''obj-2'' 6900 10]
       (initialLocal\<lparr>localCanvasSize := \<lparr>width = 5100, height = 8100\<rparr>\<rparr>) None []
     = \<lparr>width = 8100, height = 5100\<rparr>"
  by (simp add: updateCanvasSize_def initialLocal_def drawnRect_def extendByObject_def
        getBoundingBox_def Let_def)

end
